theory Spec2Isabelle
  imports Complex_Main "HOL-Library.Product_Lexorder"
begin

section \<open>Conventions of the embedding\<close>

text \<open>
  The program is a single Python module. Its \<^verbatim>\<open>Decimal\<close> quantities are modelled as
  rationals: sums, differences, products and quotients are the exact ones, and the
  rounding of the decimal context to 28 significant digits is not modelled, nor are the
  special values NaN and Infinity. \<^verbatim>\<open>quantize\<close> is written out where the source
  calls it. Strings are byte strings and the character classes are the ASCII ones.
  Dictionaries that are iterated are association lists in insertion order.
\<close>

type_synonym decimal = rat

subsection \<open>Characters and strings\<close>

definition code :: "char \<Rightarrow> nat" where
  "code c = of_char c"

definition is_digit :: "char \<Rightarrow> bool" where
  "is_digit c = (48 \<le> code c \<and> code c \<le> 57)"

definition is_upper :: "char \<Rightarrow> bool" where
  "is_upper c = (65 \<le> code c \<and> code c \<le> 90)"

definition is_lower :: "char \<Rightarrow> bool" where
  "is_lower c = (97 \<le> code c \<and> code c \<le> 122)"

definition is_alpha :: "char \<Rightarrow> bool" where
  "is_alpha c = (is_upper c \<or> is_lower c)"

text \<open>
  \<^verbatim>\<open>str.upper()\<close> on ASCII text: a lower-case letter loses 32, which is its bit 5.
\<close>

definition upper_char :: "char \<Rightarrow> char" where
  "upper_char c =
     (if is_lower c
      then (case c of Char b0 b1 b2 b3 b4 b5 b6 b7 \<Rightarrow> Char b0 b1 b2 b3 b4 False b6 b7)
      else c)"

definition upper :: "string \<Rightarrow> string" where
  "upper s = map upper_char s"

text \<open>\<^verbatim>\<open>str.isalpha()\<close>: every character is a letter and there is at least one.\<close>

definition str_isalpha :: "string \<Rightarrow> bool" where
  "str_isalpha s = (s \<noteq> [] \<and> list_all is_alpha s)"

section \<open>Config.is_leveraged_token\<close>

text \<open>
  A pattern ending in \<^verbatim>\<open>$\<close> may stop at the end of the text or just before one final
  newline: the texts the rest of the pattern has to cover exactly.
\<close>

definition dollar_ends :: "string \<Rightarrow> string list" where
  "dollar_ends s =
     (if s \<noteq> [] \<and> last s = CHR 0x0A then [s, butlast s] else [s])"

text \<open>\<^verbatim>\<open>[A-Z0-9]{1,10}\<close>, and the same class under \<^verbatim>\<open>re.IGNORECASE\<close>.\<close>

definition is_AZ09 :: "char \<Rightarrow> bool" where
  "is_AZ09 c = (is_upper c \<or> is_digit c)"

definition is_AZ09_ci :: "char \<Rightarrow> bool" where
  "is_AZ09_ci c = (is_alpha c \<or> is_digit c)"

definition prefix_1_10 :: "(char \<Rightarrow> bool) \<Rightarrow> string \<Rightarrow> bool" where
  "prefix_1_10 cls p = (1 \<le> length p \<and> length p \<le> 10 \<and> list_all cls p)"

text \<open>\<^verbatim>\<open>^[A-Z0-9]{1,10}[1-5][SL]$\<close> on a text that is covered exactly.\<close>

definition full_lev_digit :: "string \<Rightarrow> bool" where
  "full_lev_digit t =
     (let n = length t in
      2 \<le> n \<and> prefix_1_10 is_AZ09 (take (n - 2) t)
      \<and> 49 \<le> code (t ! (n - 2)) \<and> code (t ! (n - 2)) \<le> 53
      \<and> (t ! (n - 1) = CHR ''S'' \<or> t ! (n - 1) = CHR ''L''))"

text \<open>
  \<^verbatim>\<open>^[A-Z0-9]{1,10}(w1|w2)$\<close>: the text ends with one of the words and what comes
  before is one to ten characters of the class. \<open>ci\<close> says whether the match ignores case.
\<close>

definition ends_word :: "bool \<Rightarrow> (char \<Rightarrow> bool) \<Rightarrow> string \<Rightarrow> string \<Rightarrow> bool" where
  "ends_word ci cls w t =
     (let n = length t; k = length w in
      k \<le> n \<and> (if ci then upper (drop (n - k) t) else drop (n - k) t) = w
      \<and> prefix_1_10 cls (take (n - k) t))"

definition re_match_lev_digit :: "string \<Rightarrow> bool" where
  "re_match_lev_digit s = list_ex full_lev_digit (dollar_ends s)"

definition re_match_up_down :: "string \<Rightarrow> bool" where
  "re_match_up_down s =
     list_ex (\<lambda>t. ends_word True is_AZ09_ci ''UP'' t \<or> ends_word True is_AZ09_ci ''DOWN'' t)
       (dollar_ends s)"

definition re_match_bull_bear :: "string \<Rightarrow> bool" where
  "re_match_bull_bear s =
     list_ex (\<lambda>t. ends_word True is_AZ09_ci ''BULL'' t \<or> ends_word True is_AZ09_ci ''BEAR'' t)
       (dollar_ends s)"

text \<open>\<^verbatim>\<open>re.search(r'\d[LS]$', s)\<close>.\<close>

definition full_digit_LS :: "string \<Rightarrow> bool" where
  "full_digit_LS t =
     (let n = length t in
      2 \<le> n \<and> is_digit (t ! (n - 2)) \<and> (t ! (n - 1) = CHR ''L'' \<or> t ! (n - 1) = CHR ''S''))"

definition re_search_digit_LS :: "string \<Rightarrow> bool" where
  "re_search_digit_LS s = list_ex full_digit_LS (dollar_ends s)"

definition is_leveraged_token :: "string \<Rightarrow> bool" where
  "is_leveraged_token symbol_base =
     (let n = length symbol_base in
      if re_match_lev_digit symbol_base then True
      else if re_match_up_down symbol_base then True
      else if re_match_bull_bear symbol_base then True
      else if n > 2 \<and> (last symbol_base = CHR ''L'' \<or> last symbol_base = CHR ''S'')
              \<and> is_digit (symbol_base ! (n - 2))
              \<and> str_isalpha (take (n - 2) symbol_base) then True
      else if n > 7 \<and> (last symbol_base = CHR ''L'' \<or> last symbol_base = CHR ''S'')
              \<and> \<not> str_isalpha (butlast symbol_base)
              \<and> re_search_digit_LS symbol_base then True
      else False)"

text \<open>
  The patterns as the specification lists them. The third one is case-sensitive there;
  the fourth is "ending in a digit followed by L or S".
\<close>

definition spec_bull_bear :: "string \<Rightarrow> bool" where
  "spec_bull_bear s =
     list_ex (\<lambda>t. ends_word False is_AZ09 ''BULL'' t \<or> ends_word False is_AZ09 ''BEAR'' t)
       (dollar_ends s)"

definition spec_ends_digit_LS :: "string \<Rightarrow> bool" where
  "spec_ends_digit_LS s =
     (let n = length s in
      2 \<le> n \<and> is_digit (s ! (n - 2)) \<and> (last s = CHR ''L'' \<or> last s = CHR ''S''))"

section \<open>Data model\<close>

text \<open>
  A value read from an exchange response: missing (or \<^verbatim>\<open>None\<close>), or a Python value
  with its truth value and the result of \<^verbatim>\<open>Decimal(str(v))\<close>, which is \<open>None\<close> when
  the conversion raises.
\<close>

datatype raw = Absent | Val (truthy_of: bool) (parsed: "decimal option")


fun to_decimal :: "raw \<Rightarrow> decimal option" where
  "to_decimal Absent = None"
| "to_decimal (Val t d) = d"

record network_option =
  withdraw_network_code_on_from_ex :: string
  deposit_network_code_on_to_ex :: string
  normalized_name :: string
  fee_native :: decimal
  fee_currency :: string
  min_withdrawal_native :: decimal
  source_of_fee :: string
  priority_score_token :: int
  priority_score_general :: int

record ArbitrageOpportunity =
  buy_exchange_id :: string
  sell_exchange_id :: string
  symbol :: string
  buy_price :: decimal
  sell_price :: decimal
  gross_profit_pct :: decimal
  stability_count :: int
  is_stable :: bool
  buy_fee_pct :: "decimal option"
  sell_fee_pct :: "decimal option"
  withdrawal_fee_usd :: "decimal option"
  net_profit_pct :: "decimal option"
  chosen_network :: "string option"
  chosen_network_details :: "network_option option"
  potential_networks :: "network_option list"
  is_liquid_enough_for_trade :: bool

text \<open>The dataclass constructor with its defaults.\<close>

definition new_opportunity ::
  "string \<Rightarrow> string \<Rightarrow> string \<Rightarrow> decimal \<Rightarrow> decimal \<Rightarrow> decimal \<Rightarrow> ArbitrageOpportunity" where
  "new_opportunity b s smb bp sp g =
     \<lparr>buy_exchange_id = b, sell_exchange_id = s, symbol = smb, buy_price = bp,
      sell_price = sp, gross_profit_pct = g, stability_count = 0, is_stable = False,
      buy_fee_pct = None, sell_fee_pct = None, withdrawal_fee_usd = None,
      net_profit_pct = None, chosen_network = None, chosen_network_details = None,
      potential_networks = [], is_liquid_enough_for_trade = False\<rparr>"

text \<open>\<^verbatim>\<open>s.split('/')[0]\<close> and \<^verbatim>\<open>get_unique_id\<close>.\<close>

definition split_first :: "string \<Rightarrow> string" where
  "split_first s = takeWhile (\<lambda>c. c \<noteq> CHR ''/'') s"


definition get_unique_id :: "ArbitrageOpportunity \<Rightarrow> string" where
  "get_unique_id opp = buy_exchange_id opp @ ''-'' @ sell_exchange_id opp @ ''-'' @ symbol opp"

text \<open>The class attributes of \<^verbatim>\<open>Config\<close> that the modelled functions read.\<close>

record config =
  QUOTE_ASSET :: string
  MIN_PROFIT_THRESHOLD_GROSS :: decimal
  MAX_PROFIT_THRESHOLD :: decimal
  STABILITY_CYCLES :: int
  TRADE_AMOUNT_USD :: decimal
  DEFAULT_ASSET_FEE :: decimal
  ESTIMATED_WITHDRAWAL_FEES_USD :: "string \<rightharpoonup> (string \<rightharpoonup> decimal)"

definition Config :: config where
  "Config =
     \<lparr>QUOTE_ASSET = ''USDT'', MIN_PROFIT_THRESHOLD_GROSS = 1, MAX_PROFIT_THRESHOLD = 13,
      STABILITY_CYCLES = 1, TRADE_AMOUNT_USD = 10, DEFAULT_ASSET_FEE = 1 / 2,
      ESTIMATED_WITHDRAWAL_FEES_USD =
        [''USDT'' \<mapsto> [''ERC20'' \<mapsto> 5, ''TRC20'' \<mapsto> 1, ''BEP20'' \<mapsto> 3 / 10,
            ''POLYGON'' \<mapsto> 1 / 2, ''SOLANA'' \<mapsto> 1, ''OPTIMISM'' \<mapsto> 1 / 2,
            ''ARBITRUM_ONE'' \<mapsto> 1 / 2, ''AVAX'' \<mapsto> 1 / 2, ''TON'' \<mapsto> 1 / 2,
            ''DEFAULT'' \<mapsto> 2],
         ''MTL'' \<mapsto> [''DEFAULT'' \<mapsto> 1, ''MTL_NET'' \<mapsto> 1 / 2, ''ERC20'' \<mapsto> 3],
         ''COTI'' \<mapsto> [''BEP20'' \<mapsto> 3 / 100, ''ERC20'' \<mapsto> 3],
         ''KMD'' \<mapsto> [''KMD_NET'' \<mapsto> 1 / 1000, ''BEP20'' \<mapsto> 5 / 100],
         ''HAI'' \<mapsto> [''VET_NET'' \<mapsto> 1 / 100],
         ''ACM'' \<mapsto> [''CHILIZ'' \<mapsto> 1 / 2],
         ''ADA'' \<mapsto> [''ADA'' \<mapsto> 1 / 10]]\<rparr>"

section \<open>Scanner.scan_once\<close>








section \<open>Analyzer._update_stability_counts\<close>

text \<open>
  The stability table \<^verbatim>\<open>stable_candidates\<close> maps an identity to the stored
  opportunity object. The body of the loop for one opportunity of the current scan: an
  identity that is present has its stored object updated in place, a new one stores the
  scanned object with count 1; then the stored object is marked stable once its count
  reaches \<^verbatim>\<open>STABILITY_CYCLES\<close>.
\<close>

type_synonym stable_candidates = "string \<rightharpoonup> ArbitrageOpportunity"

definition update_candidate :: "config \<Rightarrow> stable_candidates \<Rightarrow> ArbitrageOpportunity \<Rightarrow> stable_candidates" where
  "update_candidate cfg tbl opp =
     (let uid = get_unique_id opp;
          stored = (case tbl uid of
                      Some c \<Rightarrow> c\<lparr>stability_count := stability_count c + 1,
                                 buy_price := buy_price opp,
                                 sell_price := sell_price opp,
                                 gross_profit_pct := gross_profit_pct opp\<rparr>
                    | None \<Rightarrow> opp\<lparr>stability_count := 1\<rparr>);
          stored = (if stability_count stored \<ge> STABILITY_CYCLES cfg
                    then stored\<lparr>is_stable := True\<rparr> else stored)
      in tbl(uid \<mapsto> stored))"

text \<open>The whole update: the loop, then the removal of the identities that are stale.\<close>

definition update_stability_counts ::
  "config \<Rightarrow> stable_candidates \<Rightarrow> ArbitrageOpportunity list \<Rightarrow> stable_candidates" where
  "update_stability_counts cfg tbl current_scan_opportunities =
     (let current_opportunity_ids_set = set (map get_unique_id current_scan_opportunities);
          tbl1 = foldl (update_candidate cfg) tbl current_scan_opportunities
      in (\<lambda>uid. if tbl1 uid \<noteq> None \<and> uid \<notin> current_opportunity_ids_set then None
                 else tbl1 uid))"

text \<open>What the loop stores for an opportunity, given the entry found for its identity.\<close>

definition stored_entry ::
  "config \<Rightarrow> ArbitrageOpportunity option \<Rightarrow> ArbitrageOpportunity \<Rightarrow> ArbitrageOpportunity" where
  "stored_entry cfg old opp =
     (let stored = (case old of
                      Some c \<Rightarrow> c\<lparr>stability_count := stability_count c + 1,
                                 buy_price := buy_price opp,
                                 sell_price := sell_price opp,
                                 gross_profit_pct := gross_profit_pct opp\<rparr>
                    | None \<Rightarrow> opp\<lparr>stability_count := 1\<rparr>)
      in if stability_count stored \<ge> STABILITY_CYCLES cfg
         then stored\<lparr>is_stable := True\<rparr> else stored)"

text \<open>The invariant of the table: an entry marked stable has reached the cycle count.\<close>

definition stable_marks_ok :: "config \<Rightarrow> stable_candidates \<Rightarrow> bool" where
  "stable_marks_ok cfg tbl =
     (\<forall>uid c. tbl uid = Some c \<longrightarrow> is_stable c \<longrightarrow> STABILITY_CYCLES cfg \<le> stability_count c)"


section \<open>Analyzer._enrich_opportunities_with_fees\<close>














section \<open>Config.normalize_network_name_for_config\<close>

text \<open>The two tables of \<^verbatim>\<open>Config\<close>, in the order of the source.\<close>

definition NETWORK_ALIASES :: "(string \<times> string) list" where
  "NETWORK_ALIASES =
    [(''ETH'', ''ERC20''), (''ETHEREUM'', ''ERC20''), (''ETH(ERC20)'', ''ERC20''),
      (''ERC_20'', ''ERC20''), (''BSC'', ''BEP20''), (''BINANCE_SMART_CHAIN'', ''BEP20''),
      (''BNB_SMART_CHAIN'', ''BEP20''), (''BEP20(BSC)'', ''BEP20''),
      (''BSC(BEP20)'', ''BEP20''), (''BINANCESMARTCHAIN'', ''BEP20''), (''BNB'', ''BEP20''),
      (''TRX'', ''TRC20''), (''TRON'', ''TRC20''), (''TRON(TRC20)'', ''TRC20''),
      (''MATIC'', ''POLYGON''), (''POLYGON_POS'', ''POLYGON''),
      (''MATIC_ERC20'', ''POLYGON''), (''POLYGON(MATIC)'', ''POLYGON''),
      (''SOL'', ''SOLANA''), (''AVAXC'', ''AVAX''), (''AVAX_C_CHAIN'', ''AVAX''),
      (''AVAX_CCHAIN'', ''AVAX''), (''AVAXCHAIN'', ''AVAX''), (''AVAX_C'', ''AVAX''),
      (''AVALANCHE_C_CHAIN'', ''AVAX''), (''AVALANCHE'', ''AVAX''),
      (''AVAXCCHAIN'', ''AVAX''), (''OPTIMISM'', ''OPTIMISM''),
      (''OPTIMISMETH'', ''OPTIMISM''), (''OP_MAINNET'', ''OPTIMISM''),
      (''OPETH'', ''OPTIMISM''), (''OP'', ''OPTIMISM''), (''OPTIMISM(OP)'', ''OPTIMISM''),
      (''ARBITRUM'', ''ARBITRUM_ONE''), (''ARBITRUMONE'', ''ARBITRUM_ONE''),
      (''ARB'', ''ARBITRUM_ONE''), (''ARBEVM'', ''ARBITRUM_ONE''),
      (''ARBONE'', ''ARBITRUM_ONE''), (''ARBITRUM_ONE(ARB)'', ''ARBITRUM_ONE''),
      (''BTC'', ''BTC''), (''BITCOIN'', ''BTC''), (''SEGWIT'', ''BTC''), (''TON'', ''TON''),
      (''THE_OPEN_NETWORK'', ''TON''), (''TONCOIN'', ''TON''), (''TON2'', ''TON''),
      (''TON_WITH_MEMO'', ''TON''), (''TON(THE_OPEN_NETWORK)'', ''TON''),
      (''ZKSYNC'', ''ZKSYNC_ERA''), (''ZKSYNC2'', ''ZKSYNC_ERA''),
      (''ZKSYNCERA'', ''ZKSYNC_ERA''), (''ZKSERA'', ''ZKSYNC_ERA''), (''LINEA'', ''LINEA''),
      (''BASE'', ''BASE''), (''BASEEVM'', ''BASE''), (''SUI'', ''SUI''),
      (''SCROLL'', ''SCROLL''), (''APT'', ''APTOS''), (''APTOS'', ''APTOS''),
      (''STATEMINT'', ''ASSET_HUB_POLKADOT''),
      (''ASSET_HUB_(POLKADOT)'', ''ASSET_HUB_POLKADOT''),
      (''DOTSM'', ''ASSET_HUB_POLKADOT''), (''POLKADOTASSETHUB'', ''ASSET_HUB_POLKADOT''),
      (''DOT_SMPOLKADOT'', ''ASSET_HUB_POLKADOT''), (''STATEMINE'', ''ASSET_HUB_KUSAMA''),
      (''ASSET_HUB_POLKADOT'', ''ASSET_HUB_POLKADOT''), (''KCC'', ''KCC''),
      (''KUCOIN_COMMUNITY_CHAIN'', ''KCC''), (''KUCOINCOMMUNITYCHAIN'', ''KCC''),
      (''NEAR'', ''NEAR''), (''NEAR_PROTOCOL'', ''NEAR''), (''GT'', ''GATECHAIN''),
      (''GTEVM'', ''GATECHAIN''), (''GATECHAIN'', ''GATECHAIN''),
      (''KAVAEVM'', ''KAVA_EVM''), (''KAVA EVM'', ''KAVA_EVM''),
      (''KAVA_EVM_CO_CHAIN'', ''KAVA_EVM''), (''OPBNB'', ''OPBNB''), (''CELO'', ''CELO''),
      (''CELOGOLD'', ''CELO''), (''XTZ'', ''TEZOS''), (''EOS'', ''EOS''),
      (''VAULTA'', ''EOS''), (''KAIA'', ''KAIA''), (''KLAY'', ''KAIA''),
      (''KLAYTN'', ''KAIA''), (''MTL_NET'', ''MTL_NET''), (''MTL'', ''MTL_NET''),
      (''MTLETH'', ''MTL_NET''), (''CHZ'', ''CHILIZ''), (''CHZ2'', ''CHILIZ''),
      (''KMD_NET'', ''KMD_NET''), (''KMD'', ''KMD_NET''), (''kmd'', ''KMD_NET''),
      (''VET_NET'', ''VET_NET''), (''VET'', ''VET_NET''),
      (''CLV_NATIVE'', ''CLOVER_NATIVE''), (''CLVEVM'', ''CLOVER_EVM''),
      (''CLV'', ''CLOVER_NATIVE''), (''BERACHAIN'', ''BERA''), (''BERA_NET'', ''BERA''),
      (''BERA'', ''BERA''), (''JOY'', ''JOYSTREAM''), (''JOYSTREAM_NET'', ''JOYSTREAM''),
      (''BTCRUNES'', ''RUNES''), (''XNA_NET'', ''XNA_NET''), (''XNA'', ''XNA_NET''),
      (''SEIEVM'', ''SEI_EVM''), (''SEI'', ''SEI''), (''MTRG_NET'', ''MTR_NET''),
      (''MTRG'', ''MTR_NET''), (''MTR_TOKEN'', ''MTR_NET''), (''MTR'', ''MTR_NET''),
      (''MANGO_NET'', ''MANGO''), (''MANGO'', ''MANGO''), (''MGO'', ''MANGO''),
      (''mango'', ''MANGO''), (''MINTCHAIN_NET'', ''MINT_NET''),
      (''MINTCHAIN'', ''MINT_NET''), (''MINT_TOKEN_NET'', ''MINT_NET''),
      (''MINT'', ''MINT_NET''), (''EVMOS_NET'', ''EVMOS_NET''), (''EVMOS'', ''EVMOS_NET''),
      (''EVMOSETH'', ''EVMOS_NET''), (''INJECTIVE'', ''INJ''), (''INJ'', ''INJ''),
      (''ADA'', ''ADA''), (''ada'', ''ADA''), (''NAC'', ''NAC''), (''GAT'', ''NAC''),
      (''DEFAULT'', ''DEFAULT''), (''UNKNOWN_NETWORK'', ''UNKNOWN_NETWORK'')]"

definition NETWORK_PREFERENCE :: "string list" where
  "NETWORK_PREFERENCE =
    [''BEP20'', ''POLYGON'', ''OPTIMISM'', ''OPBNB'', ''TON'', ''AVAX'', ''ARBITRUM_ONE'',
      ''CELO'', ''SCROLL'', ''APTOS'', ''NEAR'', ''KAVA_EVM'', ''SOLANA'', ''KCC'',
      ''ASSET_HUB_POLKADOT'', ''TEZOS'', ''GATECHAIN'', ''TRC20'', ''EOS'', ''KAIA'',
      ''ERC20'', ''ADA'', ''MTL_NET'', ''CHILIZ'', ''KMD_NET'', ''VET_NET'',
      ''CLOVER_NATIVE'', ''CLOVER_EVM'', ''BERA'', ''JOYSTREAM'', ''RUNES'', ''XNA_NET'',
      ''SEI_EVM'', ''SEI'', ''MTR_NET'', ''MANGO'', ''MINT_NET'', ''EVMOS_NET'', ''NAC'',
      ''INJ'', ''LIGHTNING'', ''SUI'', ''ZKLINK'', ''STARKNET'', ''ZKSYNC_ERA'', ''LINEA'',
      ''MANTLE'', ''BLAST'', ''BRC20'', ''MERLIN'', ''XRP'', ''XLM'', ''ALGO'', ''DOT'',
      ''KSM'', ''ATOM'', ''LTC'', ''DOGE'', ''XMR'', ''HBAR'', ''ONE'', ''XDC'', ''KAS'',
      ''KDA'', ''RVN'', ''SC'', ''CRO'', ''HECO'', ''NEO3'', ''ONT'', ''THETA'', ''ZIL'',
      ''LSK'', ''NULS'', ''OAS'', ''METIS'', ''CORE'', ''MODE'', ''REEF'', ''HRC20'',
      ''BEP2'', ''OMNI'', ''BTC'', ''DEFAULT'', ''UNKNOWN_NETWORK'']"

text \<open>
  The same two tables in linked pieces, so that a lookup can be evaluated piece by piece.
\<close>

definition aliases_16 :: "(string \<times> string) list" where
  "aliases_16 =
     (''NAC'', ''NAC'') # (''GAT'', ''NAC'') # (''DEFAULT'', ''DEFAULT'') #
     (''UNKNOWN_NETWORK'', ''UNKNOWN_NETWORK'') # []"

definition aliases_15 :: "(string \<times> string) list" where
  "aliases_15 =
     (''MINT'', ''MINT_NET'') # (''EVMOS_NET'', ''EVMOS_NET'') #
     (''EVMOS'', ''EVMOS_NET'') # (''EVMOSETH'', ''EVMOS_NET'') #
     (''INJECTIVE'', ''INJ'') # (''INJ'', ''INJ'') # (''ADA'', ''ADA'') #
     (''ada'', ''ADA'') # aliases_16"

definition aliases_14 :: "(string \<times> string) list" where
  "aliases_14 =
     (''MTR'', ''MTR_NET'') # (''MANGO_NET'', ''MANGO'') # (''MANGO'', ''MANGO'') #
     (''MGO'', ''MANGO'') # (''mango'', ''MANGO'') # (''MINTCHAIN_NET'', ''MINT_NET'') #
     (''MINTCHAIN'', ''MINT_NET'') # (''MINT_TOKEN_NET'', ''MINT_NET'') # aliases_15"

definition aliases_13 :: "(string \<times> string) list" where
  "aliases_13 =
     (''BTCRUNES'', ''RUNES'') # (''XNA_NET'', ''XNA_NET'') # (''XNA'', ''XNA_NET'') #
     (''SEIEVM'', ''SEI_EVM'') # (''SEI'', ''SEI'') # (''MTRG_NET'', ''MTR_NET'') #
     (''MTRG'', ''MTR_NET'') # (''MTR_TOKEN'', ''MTR_NET'') # aliases_14"

definition aliases_12 :: "(string \<times> string) list" where
  "aliases_12 =
     (''CLV_NATIVE'', ''CLOVER_NATIVE'') # (''CLVEVM'', ''CLOVER_EVM'') #
     (''CLV'', ''CLOVER_NATIVE'') # (''BERACHAIN'', ''BERA'') # (''BERA_NET'', ''BERA'') #
     (''BERA'', ''BERA'') # (''JOY'', ''JOYSTREAM'') # (''JOYSTREAM_NET'', ''JOYSTREAM'') #
     aliases_13"

definition aliases_11 :: "(string \<times> string) list" where
  "aliases_11 =
     (''MTLETH'', ''MTL_NET'') # (''CHZ'', ''CHILIZ'') # (''CHZ2'', ''CHILIZ'') #
     (''KMD_NET'', ''KMD_NET'') # (''KMD'', ''KMD_NET'') # (''kmd'', ''KMD_NET'') #
     (''VET_NET'', ''VET_NET'') # (''VET'', ''VET_NET'') # aliases_12"

definition aliases_10 :: "(string \<times> string) list" where
  "aliases_10 =
     (''XTZ'', ''TEZOS'') # (''EOS'', ''EOS'') # (''VAULTA'', ''EOS'') #
     (''KAIA'', ''KAIA'') # (''KLAY'', ''KAIA'') # (''KLAYTN'', ''KAIA'') #
     (''MTL_NET'', ''MTL_NET'') # (''MTL'', ''MTL_NET'') # aliases_11"

definition aliases_9 :: "(string \<times> string) list" where
  "aliases_9 =
     (''GTEVM'', ''GATECHAIN'') # (''GATECHAIN'', ''GATECHAIN'') #
     (''KAVAEVM'', ''KAVA_EVM'') # (''KAVA EVM'', ''KAVA_EVM'') #
     (''KAVA_EVM_CO_CHAIN'', ''KAVA_EVM'') # (''OPBNB'', ''OPBNB'') #
     (''CELO'', ''CELO'') # (''CELOGOLD'', ''CELO'') # aliases_10"

definition aliases_8 :: "(string \<times> string) list" where
  "aliases_8 =
     (''STATEMINE'', ''ASSET_HUB_KUSAMA'') #
     (''ASSET_HUB_POLKADOT'', ''ASSET_HUB_POLKADOT'') # (''KCC'', ''KCC'') #
     (''KUCOIN_COMMUNITY_CHAIN'', ''KCC'') # (''KUCOINCOMMUNITYCHAIN'', ''KCC'') #
     (''NEAR'', ''NEAR'') # (''NEAR_PROTOCOL'', ''NEAR'') # (''GT'', ''GATECHAIN'') #
     aliases_9"

definition aliases_7 :: "(string \<times> string) list" where
  "aliases_7 =
     (''SCROLL'', ''SCROLL'') # (''APT'', ''APTOS'') # (''APTOS'', ''APTOS'') #
     (''STATEMINT'', ''ASSET_HUB_POLKADOT'') #
     (''ASSET_HUB_(POLKADOT)'', ''ASSET_HUB_POLKADOT'') #
     (''DOTSM'', ''ASSET_HUB_POLKADOT'') # (''POLKADOTASSETHUB'', ''ASSET_HUB_POLKADOT'') #
     (''DOT_SMPOLKADOT'', ''ASSET_HUB_POLKADOT'') # aliases_8"

definition aliases_6 :: "(string \<times> string) list" where
  "aliases_6 =
     (''ZKSYNC'', ''ZKSYNC_ERA'') # (''ZKSYNC2'', ''ZKSYNC_ERA'') #
     (''ZKSYNCERA'', ''ZKSYNC_ERA'') # (''ZKSERA'', ''ZKSYNC_ERA'') #
     (''LINEA'', ''LINEA'') # (''BASE'', ''BASE'') # (''BASEEVM'', ''BASE'') #
     (''SUI'', ''SUI'') # aliases_7"

definition aliases_5 :: "(string \<times> string) list" where
  "aliases_5 =
     (''BITCOIN'', ''BTC'') # (''SEGWIT'', ''BTC'') # (''TON'', ''TON'') #
     (''THE_OPEN_NETWORK'', ''TON'') # (''TONCOIN'', ''TON'') # (''TON2'', ''TON'') #
     (''TON_WITH_MEMO'', ''TON'') # (''TON(THE_OPEN_NETWORK)'', ''TON'') # aliases_6"

definition aliases_4 :: "(string \<times> string) list" where
  "aliases_4 =
     (''OPTIMISM(OP)'', ''OPTIMISM'') # (''ARBITRUM'', ''ARBITRUM_ONE'') #
     (''ARBITRUMONE'', ''ARBITRUM_ONE'') # (''ARB'', ''ARBITRUM_ONE'') #
     (''ARBEVM'', ''ARBITRUM_ONE'') # (''ARBONE'', ''ARBITRUM_ONE'') #
     (''ARBITRUM_ONE(ARB)'', ''ARBITRUM_ONE'') # (''BTC'', ''BTC'') # aliases_5"

definition aliases_3 :: "(string \<times> string) list" where
  "aliases_3 =
     (''AVALANCHE_C_CHAIN'', ''AVAX'') # (''AVALANCHE'', ''AVAX'') #
     (''AVAXCCHAIN'', ''AVAX'') # (''OPTIMISM'', ''OPTIMISM'') #
     (''OPTIMISMETH'', ''OPTIMISM'') # (''OP_MAINNET'', ''OPTIMISM'') #
     (''OPETH'', ''OPTIMISM'') # (''OP'', ''OPTIMISM'') # aliases_4"

definition aliases_2 :: "(string \<times> string) list" where
  "aliases_2 =
     (''MATIC_ERC20'', ''POLYGON'') # (''POLYGON(MATIC)'', ''POLYGON'') #
     (''SOL'', ''SOLANA'') # (''AVAXC'', ''AVAX'') # (''AVAX_C_CHAIN'', ''AVAX'') #
     (''AVAX_CCHAIN'', ''AVAX'') # (''AVAXCHAIN'', ''AVAX'') # (''AVAX_C'', ''AVAX'') #
     aliases_3"

definition aliases_1 :: "(string \<times> string) list" where
  "aliases_1 =
     (''BSC(BEP20)'', ''BEP20'') # (''BINANCESMARTCHAIN'', ''BEP20'') #
     (''BNB'', ''BEP20'') # (''TRX'', ''TRC20'') # (''TRON'', ''TRC20'') #
     (''TRON(TRC20)'', ''TRC20'') # (''MATIC'', ''POLYGON'') #
     (''POLYGON_POS'', ''POLYGON'') # aliases_2"

definition aliases_0 :: "(string \<times> string) list" where
  "aliases_0 =
     (''ETH'', ''ERC20'') # (''ETHEREUM'', ''ERC20'') # (''ETH(ERC20)'', ''ERC20'') #
     (''ERC_20'', ''ERC20'') # (''BSC'', ''BEP20'') #
     (''BINANCE_SMART_CHAIN'', ''BEP20'') # (''BNB_SMART_CHAIN'', ''BEP20'') #
     (''BEP20(BSC)'', ''BEP20'') # aliases_1"

definition preference_4 :: "string list" where
  "preference_4 =
     ''NEO3'' # ''ONT'' # ''THETA'' # ''ZIL'' # ''LSK'' # ''NULS'' # ''OAS'' # ''METIS'' #
     ''CORE'' # ''MODE'' # ''REEF'' # ''HRC20'' # ''BEP2'' # ''OMNI'' # ''BTC'' #
     ''DEFAULT'' # ''UNKNOWN_NETWORK'' # []"

definition preference_3 :: "string list" where
  "preference_3 =
     ''XLM'' # ''ALGO'' # ''DOT'' # ''KSM'' # ''ATOM'' # ''LTC'' # ''DOGE'' # ''XMR'' #
     ''HBAR'' # ''ONE'' # ''XDC'' # ''KAS'' # ''KDA'' # ''RVN'' # ''SC'' # ''CRO'' #
     ''HECO'' # preference_4"

definition preference_2 :: "string list" where
  "preference_2 =
     ''MTR_NET'' # ''MANGO'' # ''MINT_NET'' # ''EVMOS_NET'' # ''NAC'' # ''INJ'' #
     ''LIGHTNING'' # ''SUI'' # ''ZKLINK'' # ''STARKNET'' # ''ZKSYNC_ERA'' # ''LINEA'' #
     ''MANTLE'' # ''BLAST'' # ''BRC20'' # ''MERLIN'' # ''XRP'' # preference_3"

definition preference_1 :: "string list" where
  "preference_1 =
     ''TRC20'' # ''EOS'' # ''KAIA'' # ''ERC20'' # ''ADA'' # ''MTL_NET'' # ''CHILIZ'' #
     ''KMD_NET'' # ''VET_NET'' # ''CLOVER_NATIVE'' # ''CLOVER_EVM'' # ''BERA'' #
     ''JOYSTREAM'' # ''RUNES'' # ''XNA_NET'' # ''SEI_EVM'' # ''SEI'' # preference_2"

definition preference_0 :: "string list" where
  "preference_0 =
     ''BEP20'' # ''POLYGON'' # ''OPTIMISM'' # ''OPBNB'' # ''TON'' # ''AVAX'' #
     ''ARBITRUM_ONE'' # ''CELO'' # ''SCROLL'' # ''APTOS'' # ''NEAR'' # ''KAVA_EVM'' #
     ''SOLANA'' # ''KCC'' # ''ASSET_HUB_POLKADOT'' # ''TEZOS'' # ''GATECHAIN'' #
     preference_1"

text \<open>
  Lookup in a dictionary kept as an association list, membership in a list, and the first
  element of a list that satisfies a test (a loop that returns at the first hit).
\<close>

fun dict_get :: "(string \<times> 'v) list \<Rightarrow> string \<Rightarrow> 'v option" where
  "dict_get [] k = None"
| "dict_get ((a, v) # ps) k = (if a = k then Some v else dict_get ps k)"

fun contains :: "string list \<Rightarrow> string \<Rightarrow> bool" where
  "contains [] k = False"
| "contains (a # as) k = (if a = k then True else contains as k)"

fun first_match :: "'a list \<Rightarrow> ('a \<Rightarrow> bool) \<Rightarrow> 'a option" where
  "first_match [] P = None"
| "first_match (x # xs) P = (if P x then Some x else first_match xs P)"

text \<open>
  White space as \<^verbatim>\<open>str.strip()\<close> and the pattern \<^verbatim>\<open>\s\<close> see it, among the ASCII
  characters: tab, line feed, vertical tab, form feed, carriage return, the four
  separators 28 to 31 and the space.
\<close>

definition is_space :: "char \<Rightarrow> bool" where
  "is_space c = (9 \<le> code c \<and> code c \<le> 13 \<or> 28 \<le> code c \<and> code c \<le> 32)"

definition strip :: "string \<Rightarrow> string" where
  "strip s = rev (dropWhile is_space (rev (dropWhile is_space s)))"

text \<open>\<^verbatim>\<open>s.replace(a, b)\<close> and \<^verbatim>\<open>s.replace(a, '')\<close> for a single character \<open>a\<close>.\<close>

definition replace_char :: "char \<Rightarrow> char \<Rightarrow> string \<Rightarrow> string" where
  "replace_char a b s = map (\<lambda>c. if c = a then b else c) s"

definition remove_char :: "char \<Rightarrow> string \<Rightarrow> string" where
  "remove_char a s = filter (\<lambda>c. c \<noteq> a) s"

text \<open>
  The patterns \<^verbatim>\<open>\s*\(.*\)\s*\<close> (\<open>ws\<close> true) and \<^verbatim>\<open>\(.*\)\<close> (\<open>ws\<close> false)
  tried at the start of a text: the length of the match, if there is one. The white space
  before the parenthesis is taken whole; \<^verbatim>\<open>.*\<close> stays on the line and gives back
  until the last closing parenthesis of the line; the white space after it is taken whole.
\<close>

definition match_len :: "bool \<Rightarrow> string \<Rightarrow> nat option" where
  "match_len ws s =
     (let n1 = (if ws then length (takeWhile is_space s) else 0) in
      case drop n1 s of
        [] \<Rightarrow> None
      | c # rest \<Rightarrow>
          if c \<noteq> CHR ''('' then None
          else (let line = takeWhile (\<lambda>c. c \<noteq> CHR 0x0A) rest;
                    k = length (dropWhile (\<lambda>c. c \<noteq> CHR '')'') (rev line))
                in if k = 0 then None
                   else Some (n1 + 1 + k
                          + (if ws then length (takeWhile is_space (drop k rest)) else 0))))"

text \<open>
  \<^verbatim>\<open>re.sub(pattern, '', s)\<close>: the text is scanned from the left; where the pattern
  matches, the match is dropped and the scan goes on behind it, elsewhere the character is
  kept. The counter is the number of characters of the current match still to drop.
\<close>

fun sub_scan :: "bool \<Rightarrow> nat \<Rightarrow> string \<Rightarrow> string" where
  "sub_scan ws k [] = []"
| "sub_scan ws (Suc k) (c # cs) = sub_scan ws k cs"
| "sub_scan ws 0 (c # cs) =
     (case match_len ws (c # cs) of
        Some n \<Rightarrow> sub_scan ws (n - 1) cs
      | None \<Rightarrow> c # sub_scan ws 0 cs)"

definition re_sub_paren :: "bool \<Rightarrow> string \<Rightarrow> string" where
  "re_sub_paren ws s = sub_scan ws 0 s"

text \<open>The key under which the last loop compares a name with an alias.\<close>

definition aggressive :: "string \<Rightarrow> string" where
  "aggressive s = remove_char CHR ''_'' (remove_char CHR ''-'' (remove_char CHR '' '' s))"

definition alias_matches :: "string \<Rightarrow> string \<Rightarrow> string \<times> string \<Rightarrow> bool" where
  "alias_matches aggressive_key aggressive_key_no_paren entry =
     (let normalized_alias_key = aggressive (upper (fst entry));
          normalized_alias_key_no_paren = re_sub_paren False normalized_alias_key
      in aggressive_key = normalized_alias_key
         \<or> (aggressive_key_no_paren = normalized_alias_key_no_paren
             \<and> normalized_alias_key_no_paren \<noteq> []))"

definition generic_name :: "string \<Rightarrow> bool" where
  "generic_name s = (s = ''DEFAULT'' \<or> s = ''UNKNOWN_NETWORK'')"

definition normalize_network_name_for_config :: "string option \<Rightarrow> string" where
  "normalize_network_name_for_config network_name_from_api_or_file =
     (case network_name_from_api_or_file of
        None \<Rightarrow> ''UNKNOWN_NETWORK''
      | Some nm \<Rightarrow>
          if nm = [] then ''UNKNOWN_NETWORK''
          else
            (let name_to_process = split_first nm;
                 name_upper_stripped = strip (upper name_to_process) in
             case dict_get NETWORK_ALIASES name_upper_stripped of
               Some standard_name \<Rightarrow> standard_name
             | None \<Rightarrow>
                 if contains NETWORK_PREFERENCE name_upper_stripped
                    \<and> \<not> generic_name name_upper_stripped
                 then name_upper_stripped
                 else
                   (let name_processed_for_alias =
                          replace_char CHR ''-'' CHR ''_'' (replace_char CHR '' '' CHR ''_''
                            (strip (re_sub_paren True name_upper_stripped))) in
                    case dict_get NETWORK_ALIASES name_processed_for_alias of
                      Some standard_name \<Rightarrow> standard_name
                    | None \<Rightarrow>
                        if contains NETWORK_PREFERENCE name_processed_for_alias
                           \<and> \<not> generic_name name_processed_for_alias
                        then name_processed_for_alias
                        else
                          (let aggressive_key = aggressive name_upper_stripped;
                               aggressive_key_no_paren = re_sub_paren False aggressive_key in
                           case first_match NETWORK_ALIASES
                                  (alias_matches aggressive_key aggressive_key_no_paren) of
                             Some entry \<Rightarrow> snd entry
                           | None \<Rightarrow>
                               if name_processed_for_alias \<noteq> []
                                  \<and> contains NETWORK_PREFERENCE name_processed_for_alias
                               then name_processed_for_alias
                               else if name_processed_for_alias \<noteq> []
                               then name_processed_for_alias
                               else ''UNKNOWN_NETWORK''))))"


section \<open>Analyzer._select_optimal_network_for_transfer\<close>

text \<open>\<^verbatim>\<open>str.lower()\<close> on ASCII text.\<close>

definition lower_char :: "char \<Rightarrow> char" where
  "lower_char c =
     (if is_upper c
      then (case c of Char b0 b1 b2 b3 b4 b5 b6 b7 \<Rightarrow> Char b0 b1 b2 b3 b4 True b6 b7)
      else c)"

definition lower :: "string \<Rightarrow> string" where
  "lower s = map lower_char s"

text \<open>
  A network entry of the operator's fee table (keyed by the normalised name) and a
  network entry of the live currency metadata (keyed by the venue's own name). A flag is
  \<open>None\<close> when its key is missing, else the truth value of what is stored.
\<close>

record direct_net_info =
  original_name_from_file :: "string option"
  can_withdraw :: "bool option"
  can_deposit :: "bool option"
  direct_fee :: raw
  min_withdraw :: "raw option"

record ccxt_net_info =
  active :: "bool option"
  withdraw :: "bool option"
  deposit :: "bool option"
  ccxt_fee :: raw
  feeCurrency :: "string option"
  limits_withdraw_min :: raw

text \<open>\<^verbatim>\<open>d.get(key, True)\<close> read as a condition, and \<^verbatim>\<open>d.get(key, default)\<close>.\<close>

fun flag :: "bool option \<Rightarrow> bool" where
  "flag None = True"
| "flag (Some b) = b"

fun get_or :: "'a \<Rightarrow> 'a option \<Rightarrow> 'a" where
  "get_or d None = d"
| "get_or d (Some x) = x"

text \<open>The class attributes of \<^verbatim>\<open>Config\<close> and the cache that the selector reads.\<close>

record network_tables =
  TOKEN_NETWORK_RESTRICTIONS :: "(string \<times> string) \<rightharpoonup> string list"
  ASSET_UNAVAILABLE_BLACKLIST :: "(string \<times> string) list"
  LOADED_EXCHANGE_FEES_DATA :: "string \<rightharpoonup> (string \<rightharpoonup> (string \<times> direct_net_info) list)"
  TOKEN_PREFERRED_NETWORKS :: "string \<rightharpoonup> string list"
  ESTIMATED_ASSET_PRICES_USD :: "string \<rightharpoonup> decimal"
  currencies_cache :: "string \<rightharpoonup> (string \<rightharpoonup> (string \<times> ccxt_net_info) list)"

text \<open>\<^verbatim>\<open>list.index\<close>, which raises when the element is missing.\<close>

fun index_of :: "string list \<Rightarrow> string \<Rightarrow> nat option" where
  "index_of [] k = None"
| "index_of (a # as) k = (if a = k then Some 0 else map_option Suc (index_of as k))"

definition get_network_priority_score :: "network_tables \<Rightarrow> string \<Rightarrow> string option \<Rightarrow> int" where
  "get_network_priority_score tb network_normalized asset_symbol =
     (let network_upper = upper network_normalized;
          token_list = (case asset_symbol of
                          None \<Rightarrow> None
                        | Some a \<Rightarrow> if a = [] then None else TOKEN_PREFERRED_NETWORKS tb (upper a))
      in case Option.bind token_list (\<lambda>l. index_of l network_upper) of
           Some token_pref_score \<Rightarrow> int token_pref_score
         | None \<Rightarrow>
             (let offset_for_general = (case token_list of None \<Rightarrow> 0 | Some l \<Rightarrow> int (length l))
              in case index_of NETWORK_PREFERENCE network_upper of
                   Some general_pref_score \<Rightarrow> int general_pref_score + offset_for_general + 1000
                 | None \<Rightarrow> 10000 + offset_for_general + int (length NETWORK_PREFERENCE)))"

text \<open>
  The networks of the two sources for an asset on a venue. The fee table is keyed by the
  venue in lower case, the cache by the venue as given.
\<close>

definition direct_networks :: "network_tables \<Rightarrow> string \<Rightarrow> string \<Rightarrow> (string \<times> direct_net_info) list" where
  "direct_networks tb exchange_id asset_code_upper =
     (case Option.bind (LOADED_EXCHANGE_FEES_DATA tb (lower exchange_id)) (\<lambda>m. m asset_code_upper) of
        None \<Rightarrow> [] | Some nets \<Rightarrow> nets)"

definition ccxt_networks :: "network_tables \<Rightarrow> string \<Rightarrow> string \<Rightarrow> (string \<times> ccxt_net_info) list" where
  "ccxt_networks tb exchange_id asset_code_upper =
     (case Option.bind (currencies_cache tb exchange_id) (\<lambda>m. m asset_code_upper) of
        None \<Rightarrow> [] | Some nets \<Rightarrow> nets)"

text \<open>
  An entry of the intermediate list \<^verbatim>\<open>potential_from_networks_details\<close>; it has no
  deposit code and no scores yet.
\<close>

definition from_detail :: "string \<Rightarrow> string \<Rightarrow> decimal \<Rightarrow> string \<Rightarrow> decimal \<Rightarrow> string \<Rightarrow> network_option" where
  "from_detail code_on_from nm fee_dec fee_curr min_wd src =
     \<lparr>withdraw_network_code_on_from_ex = code_on_from, deposit_network_code_on_to_ex = [],
      normalized_name = nm, fee_native = fee_dec, fee_currency = fee_curr,
      min_withdrawal_native = min_wd, source_of_fee = src,
      priority_score_token = 0, priority_score_general = 0\<rparr>"

text \<open>\<open>allowed\<close> is the token-network restriction of the path, if there is a non-empty one.\<close>

definition restricted_out :: "string list option \<Rightarrow> string \<Rightarrow> bool" where
  "restricted_out allowed nm =
     (case allowed of None \<Rightarrow> False | Some l \<Rightarrow> l \<noteq> [] \<and> \<not> contains l nm)"

text \<open>The first loop: the entries of the fee table that can be withdrawn.\<close>

definition direct_from_entry ::
  "string list option \<Rightarrow> string \<Rightarrow> string \<times> direct_net_info \<Rightarrow> network_option list" where
  "direct_from_entry allowed asset_code_upper entry =
     (let norm_net_name_direct = fst entry; direct_net_info = snd entry in
      if direct_fee direct_net_info = Absent then []
      else if \<not> flag (can_withdraw direct_net_info) then []
      else if restricted_out allowed norm_net_name_direct then []
      else
        (case (to_decimal (direct_fee direct_net_info),
               (case min_withdraw direct_net_info of
                  None \<Rightarrow> Some 0 | Some Absent \<Rightarrow> Some 0 | Some v \<Rightarrow> to_decimal v)) of
           (Some fee_dec, Some min_wd_dec) \<Rightarrow>
             [from_detail (get_or norm_net_name_direct (original_name_from_file direct_net_info))
                norm_net_name_direct fee_dec asset_code_upper min_wd_dec ''DIRECT_CONFIG_DATA'']
         | _ \<Rightarrow> []))"

text \<open>
  The second loop, over the live metadata: a network whose normalised name is already in
  the list is skipped.
\<close>

definition ccxt_from_entry ::
  "string list option \<Rightarrow> string \<Rightarrow> network_option list \<Rightarrow> string \<times> ccxt_net_info
   \<Rightarrow> network_option list" where
  "ccxt_from_entry allowed asset_code_upper potential entry =
     (let ccxt_net_original_name = fst entry; ccxt_net_info = snd entry;
          normalized_ccxt_net_name = normalize_network_name_for_config (Some ccxt_net_original_name)
      in
      if restricted_out allowed normalized_ccxt_net_name then potential
      else if list_ex (\<lambda>pfn. normalized_name pfn = normalized_ccxt_net_name) potential then potential
      else if \<not> (flag (active ccxt_net_info) \<and> flag (withdraw ccxt_net_info)) then potential
      else if ccxt_fee ccxt_net_info = Absent then potential
      else
        (case (to_decimal (ccxt_fee ccxt_net_info),
               (case limits_withdraw_min ccxt_net_info of Absent \<Rightarrow> Some 0 | v \<Rightarrow> to_decimal v)) of
           (Some fee_decimal, Some min_withdrawal_decimal) \<Rightarrow>
             potential @
             [from_detail ccxt_net_original_name normalized_ccxt_net_name fee_decimal
                (upper (get_or asset_code_upper (feeCurrency ccxt_net_info)))
                min_withdrawal_decimal ''CCXT_API_DATA'']
         | _ \<Rightarrow> potential))"

definition withdrawable_on_from ::
  "network_tables \<Rightarrow> string list option \<Rightarrow> string \<Rightarrow> string \<Rightarrow> network_option list" where
  "withdrawable_on_from tb allowed from_exchange_id asset_code_upper =
     foldl (ccxt_from_entry allowed asset_code_upper)
       (concat (map (direct_from_entry allowed asset_code_upper)
          (direct_networks tb from_exchange_id asset_code_upper)))
       (ccxt_networks tb from_exchange_id asset_code_upper)"

text \<open>
  The dictionary \<^verbatim>\<open>active_deposit_normalized_nets_on_to_ex\<close>: normalised name to
  the deposit code of the destination, the first source winning.
\<close>

definition add_deposit :: "(string \<times> string) list \<Rightarrow> string \<Rightarrow> string \<Rightarrow> (string \<times> string) list" where
  "add_deposit nets nm dep_code = (if dict_get nets nm = None then nets @ [(nm, dep_code)] else nets)"

definition direct_to_entry :: "(string \<times> string) list \<Rightarrow> string \<times> direct_net_info \<Rightarrow> (string \<times> string) list" where
  "direct_to_entry nets entry =
     (if flag (can_deposit (snd entry))
      then add_deposit nets (fst entry) (get_or (fst entry) (original_name_from_file (snd entry)))
      else nets)"

definition ccxt_to_entry :: "(string \<times> string) list \<Rightarrow> string \<times> ccxt_net_info \<Rightarrow> (string \<times> string) list" where
  "ccxt_to_entry nets entry =
     (if flag (active (snd entry)) \<and> flag (deposit (snd entry))
      then add_deposit nets (normalize_network_name_for_config (Some (fst entry))) (fst entry)
      else nets)"

definition depositable_on_to :: "network_tables \<Rightarrow> string \<Rightarrow> string \<Rightarrow> (string \<times> string) list" where
  "depositable_on_to tb to_exchange_id asset_code_upper =
     foldl ccxt_to_entry
       (foldl direct_to_entry [] (direct_networks tb to_exchange_id asset_code_upper))
       (ccxt_networks tb to_exchange_id asset_code_upper)"

text \<open>The intersection: one withdrawal network against the deposit dictionary.\<close>

definition final_candidate ::
  "network_tables \<Rightarrow> string \<Rightarrow> decimal option \<Rightarrow> (string \<times> string) list \<Rightarrow> network_option
   \<Rightarrow> network_option list" where
  "final_candidate tb asset_code_upper amount_native_to_withdraw_optional deposit_nets from_net_detail =
     (let normalized_name_to_match = normalized_name from_net_detail in
      if dict_get deposit_nets normalized_name_to_match \<noteq> None
         \<and> normalized_name_to_match \<noteq> ''UNKNOWN_NETWORK''
      then
        (if (case amount_native_to_withdraw_optional of
               None \<Rightarrow> False
             | Some amount \<Rightarrow> min_withdrawal_native from_net_detail > 0
                               \<and> amount < min_withdrawal_native from_net_detail)
         then []
         else (case dict_get deposit_nets normalized_name_to_match of
                 None \<Rightarrow> []
               | Some deposit_net_code_on_to_ex \<Rightarrow>
                   if deposit_net_code_on_to_ex = [] then []
                   else [from_net_detail
                          \<lparr>deposit_network_code_on_to_ex := deposit_net_code_on_to_ex,
                           priority_score_token :=
                             get_network_priority_score tb normalized_name_to_match (Some asset_code_upper),
                           priority_score_general :=
                             get_network_priority_score tb normalized_name_to_match None\<rparr>]))
      else [])"

text \<open>
  The sort key: the fee in the quote currency, or infinity (the flag 1) when the price of
  the fee currency is unknown, then the two preference scores. \<open>price_of\<close> is the oracle.
\<close>

definition fee_currency_price :: "network_tables \<Rightarrow> (string \<Rightarrow> decimal option) \<Rightarrow> string \<Rightarrow> decimal option" where
  "fee_currency_price tb price_of fee_curr_code =
     (let estimated = (case ESTIMATED_ASSET_PRICES_USD tb (upper fee_curr_code) of
                         None \<Rightarrow> None | Some e \<Rightarrow> if e \<noteq> 0 then Some e else None)
      in case price_of fee_curr_code of
           Some p \<Rightarrow> if p \<noteq> 0 \<and> p > 0 then Some p else estimated
         | None \<Rightarrow> estimated)"

definition sort_key_for_networks ::
  "config \<Rightarrow> network_tables \<Rightarrow> (string \<Rightarrow> decimal option) \<Rightarrow> network_option
   \<Rightarrow> (nat \<times> decimal) \<times> int \<times> int" where
  "sort_key_for_networks cfg tb price_of network_option =
     (let fee_curr_upper = upper (fee_currency network_option);
          fee_in_usd_equivalent =
            (case fee_currency_price tb price_of (fee_currency network_option) of
               Some price \<Rightarrow>
                 if price \<noteq> 0 \<and> price > 0 then (0, fee_native network_option * price)
                 else if fee_curr_upper = upper (QUOTE_ASSET cfg) then (0, fee_native network_option)
                 else (1, 0)
             | None \<Rightarrow>
                 if fee_curr_upper = upper (QUOTE_ASSET cfg) then (0, fee_native network_option)
                 else (1, 0))
      in (fee_in_usd_equivalent, priority_score_token network_option,
          priority_score_general network_option))"

definition select_optimal_network_for_transfer ::
  "config \<Rightarrow> network_tables \<Rightarrow> (string \<Rightarrow> decimal option) \<Rightarrow> string \<Rightarrow> string \<Rightarrow> string
   \<Rightarrow> decimal option \<Rightarrow> network_option list" where
  "select_optimal_network_for_transfer cfg tb price_of asset_code from_exchange_id to_exchange_id
       amount_native_to_withdraw_optional =
     (let asset_code_upper = upper asset_code;
          allowed_networks_for_path =
            TOKEN_NETWORK_RESTRICTIONS tb (lower from_exchange_id, asset_code_upper)
      in
      if (lower from_exchange_id, asset_code_upper) \<in> set (ASSET_UNAVAILABLE_BLACKLIST tb)
         \<or> (lower to_exchange_id, asset_code_upper) \<in> set (ASSET_UNAVAILABLE_BLACKLIST tb)
      then []
      else
        (let potential_from_networks_details =
               withdrawable_on_from tb allowed_networks_for_path from_exchange_id asset_code_upper
         in
         if potential_from_networks_details = [] then []
         else
           (let active_deposit_normalized_nets_on_to_ex =
                  depositable_on_to tb to_exchange_id asset_code_upper
            in
            if active_deposit_normalized_nets_on_to_ex = [] then []
            else
              sort_key (sort_key_for_networks cfg tb price_of)
                (concat (map (final_candidate tb asset_code_upper amount_native_to_withdraw_optional
                                active_deposit_normalized_nets_on_to_ex)
                           potential_from_networks_details)))))"

text \<open>
  What the claim speaks of: the withdrawal capabilities of a venue for an asset, as pairs
  of normalised name and venue code, from the fee table and from the live metadata, and
  the deposit capabilities likewise.
\<close>

definition withdrawal_capabilities :: "network_tables \<Rightarrow> string \<Rightarrow> string \<Rightarrow> (string \<times> string) list" where
  "withdrawal_capabilities tb exchange_id asset_code_upper =
     map (\<lambda>e. (fst e, get_or (fst e) (original_name_from_file (snd e))))
       (filter (\<lambda>e. direct_fee (snd e) \<noteq> Absent \<and> flag (can_withdraw (snd e)))
          (direct_networks tb exchange_id asset_code_upper))
     @ map (\<lambda>e. (normalize_network_name_for_config (Some (fst e)), fst e))
       (filter (\<lambda>e. ccxt_fee (snd e) \<noteq> Absent \<and> flag (active (snd e)) \<and> flag (withdraw (snd e)))
          (ccxt_networks tb exchange_id asset_code_upper))"

definition deposit_capabilities :: "network_tables \<Rightarrow> string \<Rightarrow> string \<Rightarrow> (string \<times> string) list" where
  "deposit_capabilities tb exchange_id asset_code_upper =
     map (\<lambda>e. (fst e, get_or (fst e) (original_name_from_file (snd e))))
       (filter (\<lambda>e. flag (can_deposit (snd e)))
          (direct_networks tb exchange_id asset_code_upper))
     @ map (\<lambda>e. (normalize_network_name_for_config (Some (fst e)), fst e))
       (filter (\<lambda>e. flag (active (snd e)) \<and> flag (deposit (snd e)))
          (ccxt_networks tb exchange_id asset_code_upper))"


section \<open>Executor.execute_arbitrage\<close>

text \<open>
  The statuses that the executor writes into the trade log, and the part of the log
  that the two claims about it read.
\<close>

datatype trade_status =
    PENDING
  | SETUP_ERROR_INSUFFICIENT_LIQUIDITY_PRE_CHECK
  | SETUP_ERROR_EXCHANGE_INSTANCE
  | INVALID_DATA_PRICE_ERROR
  | BUY_LEG_PENDING
  | BUY_LEG_FAILED_BALANCE_CHECK
  | BUY_LEG_FAILED_BALANCE_CHECK_POST_CONV
  | JIT_FUNDING_FAILED_BALANCE_CHECK
  | JIT_FUNDING_FAILED_TRANSFER_INIT
  | JIT_FUNDING_FAILED_INSUFFICIENT_POST_WAIT
  | BUY_LEG_FAILED_INTERNAL_TRANSFER_USDT
  | BUY_LEG_FILLED
  | BUY_LEG_FAILED
  | BUY_LEG_FAILED_UNEXPECTED
  | TRANSFER_LEG_FAILED_PRE_CHECK
  | TRANSFER_LEG_PENDING
  | TRANSFER_LEG_FAILED_NO_NETWORK_LIST
  | TRANSFER_LEG_FAILED_NO_CHOSEN_NETWORK
  | TRANSFER_LEG_FAILED_INTERNAL_TRANSFER_BASE
  | TRANSFER_LEG_FAILED_DEPOSIT_ADDRESS
  | TRANSFER_LEG_FAILED_WITHDRAWAL_EXEC
  | TRANSFER_LEG_INITIATED_WAITING_ARRIVAL
  | TRANSFER_LEG_FAILED_NOT_ARRIVED
  | SELL_LEG_PENDING
  | SELL_LEG_FAILED_INTERNAL_TRANSFER_BASE
  | SELL_LEG_FAILED_BALANCE_PRE_SELL
  | SELL_LEG_FAILED
  | SELL_LEG_FAILED_UNEXPECTED
  | COMPLETED_SUCCESS
  | COMPLETED_LOSS
  | COMPLETED_UNKNOWN_PROFIT



text \<open>
  The exceptions of a leg. The handler of a leg catches the first five by name and sets
  the plain failure status; every other exception, among them the one of a failed
  \<^verbatim>\<open>Decimal\<close> conversion, sets the unexpected one.
\<close>

datatype exn =
  InsufficientFunds | InvalidOrder | ExchangeError | ValueError | OrderNotClosedError
  | OtherException


definition DECIMAL_COMPARISON_EPSILON :: decimal where
  "DECIMAL_COMPARISON_EPSILON = 1 / 100000000"





text \<open>
  An order as a venue reports it. \<open>o_fee\<close> and the elements of \<open>o_fees\<close> are the fee
  dictionaries; \<open>o_info\<close> is the venue's own dictionary, which the buy leg reads on Gate.io.
\<close>

record fee_info =
  fee_cost :: raw
  fee_curr :: "string option"

























section \<open>Rebalancer.transfer_asset_between_exchanges\<close>

text \<open>
  \<^verbatim>\<open>quantize\<close> reads the exponent of its argument and not its value, so the step of an
  asset is kept as Python holds it: a coefficient and an exponent.
\<close>

record dec =
  dec_coeff :: int
  dec_exp :: int

definition pow10 :: "int \<Rightarrow> decimal" where
  "pow10 e = (if 0 \<le> e then 10 ^ nat e else 1 / 10 ^ nat (- e))"

definition dec_value :: "dec \<Rightarrow> decimal" where
  "dec_value d = of_int (dec_coeff d) * pow10 (dec_exp d)"

text \<open>\<^verbatim>\<open>int(d)\<close>, which drops the fraction.\<close>

definition int_of_decimal :: "decimal \<Rightarrow> int" where
  "int_of_decimal x = (if 0 \<le> x then \<lfloor>x\<rfloor> else \<lceil>x\<rceil>)"

text \<open>\<^verbatim>\<open>Decimal('1e-' + str(n))\<close>, which raises on a negative \<open>n\<close>.\<close>

definition one_e_minus :: "int \<Rightarrow> exn + dec" where
  "one_e_minus n = (if n < 0 then Inl OtherException else Inr \<lparr>dec_coeff = 1, dec_exp = - n\<rparr>)"

definition REBALANCER_USDT_TRANSFER_PRECISION :: dec where
  "REBALANCER_USDT_TRANSFER_PRECISION = \<lparr>dec_coeff = 1, dec_exp = - 6\<rparr>"

definition REBALANCER_BINANCE_USDT_WITHDRAW_PRECISION :: int where
  "REBALANCER_BINANCE_USDT_WITHDRAW_PRECISION = 8"

text \<open>
  A precision entry of ccxt that is not \<^verbatim>\<open>None\<close>: whether it is an int, a float or a
  string, and what \<^verbatim>\<open>Decimal(str(v))\<close> gives, \<open>None\<close> when the conversion raises.
\<close>

record precision_value =
  is_int_float_str :: bool
  as_dec :: "dec option"

datatype precision_mode = DECIMAL_PLACES | SIGNIFICANT_DIGITS | TICK_SIZE

text \<open>
  An exchange instance as far as the rebalancer reads it for a step: the precision mode,
  the precision of each currency and the amount precision of each market. An entry of
  \<open>currencies\<close> or \<open>markets\<close> is a dictionary of ccxt, never empty; its value here is the
  precision, \<open>None\<close> when the dictionary has none.
\<close>

record exchange_instance =
  precisionMode :: "precision_mode option"
  currencies :: "string \<rightharpoonup> precision_value option"
  markets :: "string \<rightharpoonup> precision_value option"

text \<open>The step from the precision of the currency; an exception leaves the \<^verbatim>\<open>try\<close> block.\<close>

definition currency_step :: "precision_mode option \<Rightarrow> precision_value \<Rightarrow> exn + dec" where
  "currency_step precision_mode_attr precision_val_curr =
     (case as_dec precision_val_curr of
        None \<Rightarrow> Inl OtherException
      | Some temp_step_curr \<Rightarrow>
          if precision_mode_attr = Some TICK_SIZE then Inr temp_step_curr
          else if precision_mode_attr = Some DECIMAL_PLACES
          then one_e_minus (int_of_decimal (dec_value temp_step_curr))
          else if dec_value temp_step_curr > 1
                  \<and> dec_value temp_step_curr = of_int (round (dec_value temp_step_curr))
          then one_e_minus (int_of_decimal (dec_value temp_step_curr))
          else if dec_value temp_step_curr > 0 \<and> dec_value temp_step_curr < 1
          then Inr temp_step_curr
          else Inr temp_step_curr)"

text \<open>The first of the three markets of the asset that has an amount precision.\<close>

definition market_to_use_for_precision ::
  "config \<Rightarrow> exchange_instance \<Rightarrow> string \<Rightarrow> precision_value option" where
  "market_to_use_for_precision cfg exchange_instance asset_code_upper =
     (case List.find (\<lambda>market_candidate. market_candidate \<noteq> None)
             (map (\<lambda>quote. case markets exchange_instance (asset_code_upper @ ''/'' @ quote) of
                              None \<Rightarrow> None | Some p \<Rightarrow> p)
                [upper (QUOTE_ASSET cfg), ''BTC'', ''ETH'']) of
        None \<Rightarrow> None
      | Some market_candidate \<Rightarrow> market_candidate)"

definition market_precision_step :: "config \<Rightarrow> exchange_instance \<Rightarrow> string \<Rightarrow> dec option" where
  "market_precision_step cfg exchange_instance asset_code_upper =
     (case market_to_use_for_precision cfg exchange_instance asset_code_upper of
        None \<Rightarrow> None
      | Some step_val_market \<Rightarrow>
          if is_int_float_str step_val_market then as_dec step_val_market else None)"

definition get_asset_transfer_precision ::
  "config \<Rightarrow> (string \<rightharpoonup> (string \<rightharpoonup> precision_value option)) \<Rightarrow> string \<Rightarrow> exchange_instance
   \<Rightarrow> string \<Rightarrow> dec" where
  "get_asset_transfer_precision cfg analyzer_currencies exchange_id exchange_instance asset_code_upper =
     (if asset_code_upper = upper (QUOTE_ASSET cfg)
      then (if lower exchange_id = ''binance''
            then \<lparr>dec_coeff = 1, dec_exp = - REBALANCER_BINANCE_USDT_WITHDRAW_PRECISION\<rparr>
            else REBALANCER_USDT_TRANSFER_PRECISION)
      else
        (let cached = (case analyzer_currencies exchange_id of
                         None \<Rightarrow> None | Some cs \<Rightarrow> cs asset_code_upper);
             currency_info = (case cached of
                                None \<Rightarrow> currencies exchange_instance asset_code_upper
                              | Some c \<Rightarrow> Some c);
             step = (case currency_info of
                       Some (Some precision_val_curr) \<Rightarrow>
                         (case currency_step (precisionMode exchange_instance) precision_val_curr of
                            Inr s \<Rightarrow> Some s
                          | Inl e \<Rightarrow> None)
                     | _ \<Rightarrow> None)
         in case step of
              Some s \<Rightarrow> s
            | None \<Rightarrow>
                (case market_precision_step cfg exchange_instance asset_code_upper of
                   Some s \<Rightarrow> s
                 | None \<Rightarrow> \<lparr>dec_coeff = 1, dec_exp = - 8\<rparr>)))"

text \<open>
  \<^verbatim>\<open>amount.quantize(step, rounding=ROUND_DOWN)\<close>: the amount cut, towards zero, to the
  exponent of the step. It raises when the result needs more than the 28 digits of the
  context.
\<close>

definition quantize_down :: "decimal \<Rightarrow> dec \<Rightarrow> exn + decimal" where
  "quantize_down amount quantize_step =
     (let c = int_of_decimal (amount / pow10 (dec_exp quantize_step))
      in if \<bar>c\<bar> \<ge> 10 ^ 28 then Inl OtherException
         else Inr (of_int c * pow10 (dec_exp quantize_step)))"

text \<open>The text of a number with eight decimals, \<^verbatim>\<open>f"{amount:.8f}"\<close>, rounded half to even.\<close>

definition digit_char :: "nat \<Rightarrow> char" where
  "digit_char d = ''0123456789'' ! d"

fun str_nat :: "nat \<Rightarrow> string" where
  "str_nat n = (if n < 10 then [digit_char n] else str_nat (n div 10) @ [digit_char (n mod 10)])"

definition round_half_even :: "decimal \<Rightarrow> int" where
  "round_half_even x =
     (let f = \<lfloor>x\<rfloor>; r = x - of_int f
      in if r < 1 / 2 then f else if r > 1 / 2 then f + 1 else if even f then f else f + 1)"

definition format_8f :: "decimal \<Rightarrow> string" where
  "format_8f amount =
     (let n = nat (round_half_even (\<bar>amount\<bar> * 10 ^ 8));
          frac = str_nat (n mod 10 ^ 8)
      in (if amount < 0 then ''-'' else '''') @ str_nat (n div 10 ^ 8) @ ''.''
         @ replicate (8 - length frac) CHR ''0'' @ frac)"

record RebalanceOperation =
  op_key :: string
  from_exchange :: string
  to_exchange :: string
  op_amount :: decimal
  op_asset :: string

text \<open>
  The rebalancer: its exchange instances, the currency cache of its analyzer, its active
  operations, and the state \<open>venues\<close> of the venues themselves (accounts, deposit addresses
  asked for, withdrawals submitted), which only \<^verbatim>\<open>_execute_asset_transfer\<close> touches.
\<close>

record 'v rebalancer =
  rebalancer_exchanges :: "string \<rightharpoonup> exchange_instance"
  analyzer_currencies_cache :: "string \<rightharpoonup> (string \<rightharpoonup> precision_value option)"
  active_operations :: "string \<rightharpoonup> RebalanceOperation"
  venues :: 'v

definition create_operation_key :: "string \<Rightarrow> string \<Rightarrow> string \<Rightarrow> decimal \<Rightarrow> string" where
  "create_operation_key asset from_ex to_ex amount =
     upper asset @ ''_'' @ lower from_ex @ ''_to_'' @ lower to_ex @ ''_'' @ format_8f amount"

definition is_operation_active :: "'v rebalancer \<Rightarrow> string \<Rightarrow> bool" where
  "is_operation_active self k = (k \<in> dom (active_operations self))"

definition start_operation ::
  "string \<Rightarrow> string \<Rightarrow> string \<Rightarrow> decimal \<Rightarrow> string \<Rightarrow> 'v rebalancer \<Rightarrow> bool \<times> 'v rebalancer" where
  "start_operation k from_ex to_ex amount asset self =
     (if is_operation_active self k then (False, self)
      else (True, self\<lparr>active_operations := (active_operations self)
                        (k \<mapsto> \<lparr>op_key = k, from_exchange = from_ex, to_exchange = to_ex,
                                op_amount = amount, op_asset = asset\<rparr>)\<rparr>))"

definition end_operation :: "string \<Rightarrow> 'v rebalancer \<Rightarrow> 'v rebalancer" where
  "end_operation k self = self\<lparr>active_operations := (active_operations self)(k := None)\<rparr>"

text \<open>
  The transfer. \<open>execute_asset_transfer\<close> stands for \<^verbatim>\<open>_execute_asset_transfer\<close>, which
  returns a truth value or raises, and may change the rebalancer and the venues; the
  decorator of the method turns every exception into \<^verbatim>\<open>False\<close>, after the
  \<^verbatim>\<open>finally\<close> clause has ended the operation.
\<close>

definition transfer_asset_between_exchanges ::
  "config
   \<Rightarrow> (string \<Rightarrow> string \<Rightarrow> string \<Rightarrow> decimal \<Rightarrow> 'b \<Rightarrow> 'o \<Rightarrow> 'v rebalancer \<Rightarrow> (exn + bool) \<times> 'v rebalancer)
   \<Rightarrow> 'v rebalancer \<Rightarrow> string \<Rightarrow> string \<Rightarrow> string \<Rightarrow> decimal \<Rightarrow> 'b \<Rightarrow> 'o
   \<Rightarrow> bool \<times> 'v rebalancer" where
  "transfer_asset_between_exchanges cfg execute_asset_transfer self asset_code from_exchange_id
       to_exchange_id amount all_balances chosen_network_details_override =
     (case rebalancer_exchanges self from_exchange_id of
        None \<Rightarrow> (False, self)
      | Some from_ex_inst \<Rightarrow>
          (let quantize_step = get_asset_transfer_precision cfg (analyzer_currencies_cache self)
                                 from_exchange_id from_ex_inst (upper asset_code)
           in case quantize_down amount quantize_step of
                Inl e \<Rightarrow> (False, self)
              | Inr quantized_amount \<Rightarrow>
                  if quantized_amount \<le> DECIMAL_COMPARISON_EPSILON then (False, self)
                  else
                    (let k = create_operation_key asset_code from_exchange_id to_exchange_id
                               quantized_amount
                     in case start_operation k from_exchange_id to_exchange_id quantized_amount
                               asset_code self of
                          (False, s) \<Rightarrow> (False, s)
                        | (True, s1) \<Rightarrow>
                            (case execute_asset_transfer asset_code from_exchange_id to_exchange_id
                                    quantized_amount all_balances chosen_network_details_override s1 of
                               (Inr result, s2) \<Rightarrow> (result, end_operation k s2)
                             | (Inl e, s2) \<Rightarrow> (False, end_operation k s2)))))"

text \<open>The quantized amount of a request, when the source venue exists and nothing raises.\<close>

definition quantized_amount_of ::
  "config \<Rightarrow> 'v rebalancer \<Rightarrow> string \<Rightarrow> string \<Rightarrow> decimal \<Rightarrow> decimal option" where
  "quantized_amount_of cfg self asset_code from_exchange_id amount =
     (case rebalancer_exchanges self from_exchange_id of
        None \<Rightarrow> None
      | Some from_ex_inst \<Rightarrow>
          (case quantize_down amount
                  (get_asset_transfer_precision cfg (analyzer_currencies_cache self)
                     from_exchange_id from_ex_inst (upper asset_code)) of
             Inl e \<Rightarrow> None
           | Inr quantized_amount \<Rightarrow> Some quantized_amount))"


section \<open>Leveraged-token detector: results\<close>

lemma upper_fixed_AZ09: "list_all is_AZ09 w \<Longrightarrow> upper w = w"
  by (induction w) (auto simp: upper_def upper_char_def is_AZ09_def is_upper_def is_lower_def is_digit_def)

lemma ends_word_cs_imp_ci:
  assumes "ends_word False is_AZ09 w t" and "list_all is_AZ09 w"
  shows "ends_word True is_AZ09_ci w t"
proof -
  from assms(1) have k: "length w \<le> length t" and d: "drop (length t - length w) t = w"
    and p: "prefix_1_10 is_AZ09 (take (length t - length w) t)"
    by (auto simp: ends_word_def Let_def)
  have "upper (drop (length t - length w) t) = w"
    using d upper_fixed_AZ09 [OF assms(2)] by simp
  moreover have "prefix_1_10 is_AZ09_ci (take (length t - length w) t)"
    using p by (auto simp: prefix_1_10_def list_all_iff is_AZ09_def is_AZ09_ci_def is_alpha_def)
  ultimately show ?thesis
    using k by (simp add: ends_word_def Let_def)
qed

lemma spec_bull_bear_imp: "spec_bull_bear s \<Longrightarrow> re_match_bull_bear s"
proof -
  assume "spec_bull_bear s"
  then obtain t where t: "t \<in> set (dollar_ends s)"
    and w: "ends_word False is_AZ09 ''BULL'' t \<or> ends_word False is_AZ09 ''BEAR'' t"
    by (auto simp: spec_bull_bear_def list_ex_iff)
  have a: "list_all is_AZ09 ''BULL''" and b: "list_all is_AZ09 ''BEAR''"
    by (simp_all add: is_AZ09_def is_upper_def is_digit_def code_def)
  from w have "ends_word True is_AZ09_ci ''BULL'' t \<or> ends_word True is_AZ09_ci ''BEAR'' t"
    using ends_word_cs_imp_ci [OF _ a] ends_word_cs_imp_ci [OF _ b] by blast
  with t show ?thesis
    by (auto simp: re_match_bull_bear_def list_ex_iff)
qed

lemma digit_not_alpha: "is_digit c \<Longrightarrow> \<not> is_alpha c"
  by (auto simp: is_digit_def is_alpha_def is_upper_def is_lower_def)

lemma butlast_not_alpha:
  assumes "2 \<le> length s" and "is_digit (s ! (length s - 2))"
  shows "\<not> str_isalpha (butlast s)"
proof
  assume "str_isalpha (butlast s)"
  then have all: "\<forall>c \<in> set (butlast s). is_alpha c"
    by (simp add: str_isalpha_def list_all_iff)
  have "length s - 2 < length (butlast s)" using assms(1) by simp
  then have "butlast s ! (length s - 2) \<in> set (butlast s)" by (rule nth_mem)
  moreover have "butlast s ! (length s - 2) = s ! (length s - 2)"
    using assms(1) by (simp add: nth_butlast)
  ultimately have "is_alpha (s ! (length s - 2))" using all by simp
  with assms(2) show False using digit_not_alpha by blast
qed

lemma last_LS_search:
  assumes "spec_ends_digit_LS s"
  shows "re_search_digit_LS s"
proof -
  from assms have n: "2 \<le> length s" and d: "is_digit (s ! (length s - 2))"
    and l: "last s = CHR ''L'' \<or> last s = CHR ''S''"
    by (auto simp: spec_ends_digit_LS_def Let_def)
  from n have ne: "s \<noteq> []" by auto
  have "last s = s ! (length s - 1)" using ne by (simp add: last_conv_nth)
  with n d l have "full_digit_LS s" by (simp add: full_digit_LS_def Let_def)
  moreover have "s \<in> set (dollar_ends s)" by (simp add: dollar_ends_def)
  ultimately show ?thesis by (auto simp: re_search_digit_LS_def list_ex_iff)
qed

text \<open>
  C9, as the specification states it, fails: \<^verbatim>\<open>A17L\<close> ends in a digit followed by L,
  but its prefix \<^verbatim>\<open>A1\<close> is not alphabetic, 7 is outside 1-5 and the text is not longer
  than seven characters, so the detector answers False.
\<close>

theorem C9_counterexample:
  "spec_ends_digit_LS ''A17L'' \<and> \<not> is_leveraged_token ''A17L''"
  by (simp add: spec_ends_digit_LS_def is_leveraged_token_def re_match_lev_digit_def
      re_match_up_down_def re_match_bull_bear_def re_search_digit_LS_def dollar_ends_def
      full_lev_digit_def full_digit_LS_def ends_word_def prefix_1_10_def str_isalpha_def
      is_AZ09_def is_AZ09_ci_def is_alpha_def is_upper_def is_lower_def is_digit_def
      upper_def upper_char_def code_def Let_def)

text \<open>
  C9, amended: is_leveraged_token returns True for every symbol base that matches one of
  the three patterns, or that ends in a digit followed by L or S and either is longer than
  two characters with an alphabetic prefix before the digit, or is longer than seven
  characters.
\<close>

theorem C9_is_leveraged_token_patterns:
  assumes "re_match_lev_digit s \<or> re_match_up_down s \<or> spec_bull_bear s
           \<or> (spec_ends_digit_LS s
               \<and> (length s > 2 \<and> str_isalpha (take (length s - 2) s) \<or> length s > 7))"
  shows "is_leveraged_token s"
proof -
  consider (a) "re_match_lev_digit s" | (b) "re_match_up_down s" | (c) "spec_bull_bear s"
    | (d) "spec_ends_digit_LS s" "length s > 2" "str_isalpha (take (length s - 2) s)"
    | (e) "spec_ends_digit_LS s" "length s > 7"
    using assms by blast
  then show ?thesis
  proof cases
    case a
    then show ?thesis by (simp add: is_leveraged_token_def)
  next
    case b
    then show ?thesis by (simp add: is_leveraged_token_def)
  next
    case c
    then show ?thesis using spec_bull_bear_imp by (simp add: is_leveraged_token_def)
  next
    case d
    then show ?thesis
      by (auto simp: is_leveraged_token_def spec_ends_digit_LS_def Let_def)
  next
    case e
    from e(1) have n: "2 \<le> length s" and dg: "is_digit (s ! (length s - 2))"
      and l: "last s = CHR ''L'' \<or> last s = CHR ''S''"
      by (auto simp: spec_ends_digit_LS_def Let_def)
    have "\<not> str_isalpha (butlast s)" using butlast_not_alpha [OF n dg] .
    moreover have "re_search_digit_LS s" using last_LS_search [OF e(1)] .
    ultimately show ?thesis using e(2) l
      by (auto simp: is_leveraged_token_def Let_def)
  qed
qed

theorem C9_is_leveraged_token_patterns_witness:
  "re_match_lev_digit ''BTC3L'' \<and> is_leveraged_token ''BTC3L''
   \<and> spec_ends_digit_LS ''ETHBULLX9S'' \<and> is_leveraged_token ''ETHBULLX9S''"
proof -
  have a: "re_match_lev_digit ''BTC3L''"
    by (simp add: re_match_lev_digit_def dollar_ends_def full_lev_digit_def prefix_1_10_def
        is_AZ09_def is_upper_def is_digit_def code_def Let_def)
  have b: "spec_ends_digit_LS ''ETHBULLX9S''"
    by (simp add: spec_ends_digit_LS_def is_digit_def code_def Let_def)
  have l: "length ''ETHBULLX9S'' > 7" by simp
  show ?thesis
    using a b C9_is_leveraged_token_patterns [of "''BTC3L''"]
      C9_is_leveraged_token_patterns [of "''ETHBULLX9S''"] l
    by blast
qed

section \<open>Scanner: results\<close>








section \<open>Stability table: results\<close>

lemma update_candidate_eq:
  "update_candidate cfg tbl opp = tbl(get_unique_id opp \<mapsto> stored_entry cfg (tbl (get_unique_id opp)) opp)"
  by (simp add: update_candidate_def stored_entry_def Let_def)

lemma foldl_update_candidate_other:
  "uid \<notin> get_unique_id ` set opps \<Longrightarrow> foldl (update_candidate cfg) tbl opps uid = tbl uid"
  by (induction opps arbitrary: tbl) (auto simp: update_candidate_eq)

lemma foldl_update_candidate_mem:
  assumes "distinct (map get_unique_id opps)" and "opp \<in> set opps"
  shows "foldl (update_candidate cfg) tbl opps (get_unique_id opp)
         = Some (stored_entry cfg (tbl (get_unique_id opp)) opp)"
  using assms
proof (induction opps arbitrary: tbl)
  case Nil
  then show ?case by simp
next
  case (Cons x xs)
  show ?case
  proof (cases "opp = x")
    case True
    have "get_unique_id x \<notin> get_unique_id ` set xs" using Cons.prems(1) by auto
    then have "foldl (update_candidate cfg) (update_candidate cfg tbl x) xs (get_unique_id x)
               = update_candidate cfg tbl x (get_unique_id x)"
      by (rule foldl_update_candidate_other)
    also have "\<dots> = Some (stored_entry cfg (tbl (get_unique_id x)) x)"
      by (simp add: update_candidate_eq)
    finally show ?thesis using True by simp
  next
    case False
    then have mem: "opp \<in> set xs" using Cons.prems(2) by simp
    have d: "distinct (map get_unique_id xs)" using Cons.prems(1) by simp
    have ne: "get_unique_id opp \<noteq> get_unique_id x" using Cons.prems(1) mem by (auto simp: image_iff)
    have "foldl (update_candidate cfg) tbl (x # xs) (get_unique_id opp)
          = foldl (update_candidate cfg) (update_candidate cfg tbl x) xs (get_unique_id opp)"
      by simp
    also have "\<dots> = Some (stored_entry cfg (update_candidate cfg tbl x (get_unique_id opp)) opp)"
      using Cons.IH [OF d mem] .
    also have "update_candidate cfg tbl x (get_unique_id opp) = tbl (get_unique_id opp)"
      using ne by (simp add: update_candidate_eq)
    finally show ?thesis .
  qed
qed

lemma update_stability_counts_mem:
  assumes "distinct (map get_unique_id opps)" and "opp \<in> set opps"
  shows "update_stability_counts cfg tbl opps (get_unique_id opp)
         = Some (stored_entry cfg (tbl (get_unique_id opp)) opp)"
  using assms foldl_update_candidate_mem [OF assms, of cfg tbl]
  by (simp add: update_stability_counts_def Let_def)

lemma update_stability_counts_stale:
  assumes "uid \<notin> get_unique_id ` set opps"
  shows "update_stability_counts cfg tbl opps uid = None"
  using assms by (simp add: update_stability_counts_def Let_def)

lemma stored_entry_stable_iff:
  assumes "\<And>c. old = Some c \<Longrightarrow> is_stable c \<Longrightarrow> STABILITY_CYCLES cfg \<le> stability_count c"
    and "\<not> is_stable opp"
  shows "is_stable (stored_entry cfg old opp)
         \<longleftrightarrow> STABILITY_CYCLES cfg \<le> stability_count (stored_entry cfg old opp)"
proof (cases old)
  case None
  then show ?thesis using assms(2) by (simp add: stored_entry_def Let_def)
next
  case (Some c)
  then show ?thesis using assms(1) [OF Some] by (auto simp: stored_entry_def Let_def)
qed

text \<open>
  C4: for an update with the opportunities of the current scan (their identities pairwise
  different, none of them marked stable yet) on a table whose stable marks are justified:
  an identity that was in the table has its count incremented by one and its prices
  refreshed, a new identity is stored with count 1, every identity that is not in the
  current scan is absent from the table afterwards, and afterwards an entry is marked
  stable iff its count has reached STABILITY_CYCLES.
\<close>

theorem C4_update_stability_counts:
  assumes "distinct (map get_unique_id opps)"
    and "stable_marks_ok cfg tbl"
    and "list_all (\<lambda>opp. \<not> is_stable opp) opps"
  shows "(\<forall>opp \<in> set opps. \<forall>c. tbl (get_unique_id opp) = Some c \<longrightarrow>
            (\<exists>c'. update_stability_counts cfg tbl opps (get_unique_id opp) = Some c'
               \<and> stability_count c' = stability_count c + 1
               \<and> buy_price c' = buy_price opp \<and> sell_price c' = sell_price opp
               \<and> gross_profit_pct c' = gross_profit_pct opp))
       \<and> (\<forall>opp \<in> set opps. tbl (get_unique_id opp) = None \<longrightarrow>
            (\<exists>c'. update_stability_counts cfg tbl opps (get_unique_id opp) = Some c'
               \<and> stability_count c' = 1
               \<and> c'\<lparr>stability_count := stability_count opp, is_stable := False\<rparr> = opp))
       \<and> (\<forall>uid. uid \<notin> get_unique_id ` set opps \<longrightarrow>
            update_stability_counts cfg tbl opps uid = None)
       \<and> (\<forall>uid c'. update_stability_counts cfg tbl opps uid = Some c' \<longrightarrow>
            (is_stable c' \<longleftrightarrow> STABILITY_CYCLES cfg \<le> stability_count c'))"
proof (intro conjI ballI allI impI)
  fix opp c
  assume "opp \<in> set opps" and "tbl (get_unique_id opp) = Some c"
  then show "\<exists>c'. update_stability_counts cfg tbl opps (get_unique_id opp) = Some c'
               \<and> stability_count c' = stability_count c + 1
               \<and> buy_price c' = buy_price opp \<and> sell_price c' = sell_price opp
               \<and> gross_profit_pct c' = gross_profit_pct opp"
    using update_stability_counts_mem [OF assms(1), of opp cfg tbl]
    by (simp add: stored_entry_def Let_def)
next
  fix opp
  assume mem: "opp \<in> set opps" and "tbl (get_unique_id opp) = None"
  moreover have "\<not> is_stable opp" using assms(3) mem by (simp add: list_all_iff)
  ultimately show "\<exists>c'. update_stability_counts cfg tbl opps (get_unique_id opp) = Some c'
               \<and> stability_count c' = 1
               \<and> c'\<lparr>stability_count := stability_count opp, is_stable := False\<rparr> = opp"
    using update_stability_counts_mem [OF assms(1), of opp cfg tbl]
    by (simp add: stored_entry_def Let_def)
next
  fix uid
  assume "uid \<notin> get_unique_id ` set opps"
  then show "update_stability_counts cfg tbl opps uid = None"
    by (rule update_stability_counts_stale)
next
  fix uid c'
  assume s: "update_stability_counts cfg tbl opps uid = Some c'"
  then have "uid \<in> get_unique_id ` set opps"
    using update_stability_counts_stale [of uid opps cfg tbl] by auto
  then obtain opp where mem: "opp \<in> set opps" and uid: "uid = get_unique_id opp" by auto
  have c': "c' = stored_entry cfg (tbl uid) opp"
    using update_stability_counts_mem [OF assms(1) mem, of cfg tbl] s uid by simp
  have fresh: "\<not> is_stable opp" using assms(3) mem by (simp add: list_all_iff)
  have old: "\<And>c. tbl uid = Some c \<Longrightarrow> is_stable c \<Longrightarrow> STABILITY_CYCLES cfg \<le> stability_count c"
    using assms(2) by (auto simp: stable_marks_ok_def)
  show "is_stable c' \<longleftrightarrow> STABILITY_CYCLES cfg \<le> stability_count c'"
    unfolding c' using stored_entry_stable_iff [OF old fresh] .
qed

theorem C4_update_stability_counts_witness:
  "(let o1 = new_opportunity ''binance'' ''kucoin'' ''BTC/USDT'' 100 102 2;
        c0 = (new_opportunity ''binance'' ''kucoin'' ''BTC/USDT'' 99 101 (200 / 99))
               \<lparr>stability_count := 1, is_stable := True\<rparr>;
        c1 = (new_opportunity ''mexc'' ''gateio'' ''ETH/USDT'' 10 11 10)
               \<lparr>stability_count := 1, is_stable := True\<rparr>;
        tbl = [''binance-kucoin-BTC/USDT'' \<mapsto> c0, ''mexc-gateio-ETH/USDT'' \<mapsto> c1]
    in distinct (map get_unique_id [o1]) \<and> stable_marks_ok Config tbl
       \<and> list_all (\<lambda>opp. \<not> is_stable opp) [o1]
       \<and> update_stability_counts Config tbl [o1] ''mexc-gateio-ETH/USDT'' = None
       \<and> (\<exists>c'. update_stability_counts Config tbl [o1] (get_unique_id o1) = Some c'
              \<and> stability_count c' = 2 \<and> buy_price c' = 100 \<and> is_stable c'))"
proof -
  define o1 where "o1 = new_opportunity ''binance'' ''kucoin'' ''BTC/USDT'' 100 102 2"
  define c0 where "c0 = (new_opportunity ''binance'' ''kucoin'' ''BTC/USDT'' 99 101 (200 / 99))
               \<lparr>stability_count := 1, is_stable := True\<rparr>"
  define c1 where "c1 = (new_opportunity ''mexc'' ''gateio'' ''ETH/USDT'' 10 11 10)
               \<lparr>stability_count := 1, is_stable := True\<rparr>"
  define tbl where "tbl = [''binance-kucoin-BTC/USDT'' \<mapsto> c0, ''mexc-gateio-ETH/USDT'' \<mapsto> c1]"
  have uid: "get_unique_id o1 = ''binance-kucoin-BTC/USDT''"
    by (simp add: o1_def get_unique_id_def new_opportunity_def)
  have h1: "distinct (map get_unique_id [o1])" by simp
  have h2: "stable_marks_ok Config tbl"
    by (simp add: stable_marks_ok_def tbl_def c0_def c1_def Config_def new_opportunity_def)
  have h3: "list_all (\<lambda>opp. \<not> is_stable opp) [o1]"
    by (simp add: o1_def new_opportunity_def)
  have old: "tbl (get_unique_id o1) = Some c0" by (simp add: uid tbl_def)
  have stale: "''mexc-gateio-ETH/USDT'' \<notin> get_unique_id ` set [o1]" by (simp add: uid)
  note res = C4_update_stability_counts [OF h1 h2 h3]
  from res stale have a: "update_stability_counts Config tbl [o1] ''mexc-gateio-ETH/USDT'' = None"
    by blast
  from res old obtain c' where c': "update_stability_counts Config tbl [o1] (get_unique_id o1) = Some c'"
      "stability_count c' = stability_count c0 + 1" "buy_price c' = buy_price o1"
    by fastforce
  from res c'(1) have "is_stable c' \<longleftrightarrow> STABILITY_CYCLES Config \<le> stability_count c'"
    by blast
  then have st: "is_stable c'" using c'(2) by (simp add: c0_def Config_def)
  have "\<exists>c'. update_stability_counts Config tbl [o1] (get_unique_id o1) = Some c'
              \<and> stability_count c' = 2 \<and> buy_price c' = 100 \<and> is_stable c'"
    using c' st by (simp add: c0_def o1_def new_opportunity_def)
  with h1 h2 h3 a show ?thesis
    unfolding Let_def o1_def [symmetric] c0_def [symmetric] c1_def [symmetric] tbl_def [symmetric]
    by blast
qed

section \<open>Enrichment: results\<close>










section \<open>Network-name normalisation: results\<close>

lemma aliases_linked: "NETWORK_ALIASES = aliases_0"
  unfolding NETWORK_ALIASES_def aliases_0_def aliases_1_def aliases_2_def aliases_3_def aliases_4_def aliases_5_def
    aliases_6_def aliases_7_def aliases_8_def aliases_9_def aliases_10_def aliases_11_def
    aliases_12_def aliases_13_def aliases_14_def aliases_15_def aliases_16_def
  by (rule refl)

lemma preference_linked: "NETWORK_PREFERENCE = preference_0"
  unfolding NETWORK_PREFERENCE_def preference_0_def preference_1_def preference_2_def preference_3_def preference_4_def
  by (rule refl)

text \<open>Rules that evaluate a lookup without walking through the rest of the table.\<close>

lemma dict_get_cong: "k = k' \<Longrightarrow> dict_get ps k = dict_get ps k'"
  by simp

lemma contains_cong: "k = k' \<Longrightarrow> contains ps k = contains ps k'"
  by simp

lemma first_match_cong: "P = P' \<Longrightarrow> first_match xs P = first_match xs P'"
  by simp

lemmas table_unfold =
  aliases_linked [THEN arg_cong [where f = dict_get], THEN fun_cong]
  aliases_linked [THEN arg_cong [where f = first_match], THEN fun_cong]
  preference_linked [THEN arg_cong [where f = contains], THEN fun_cong]
  aliases_0_def [THEN arg_cong [where f = dict_get], THEN fun_cong]
  aliases_1_def [THEN arg_cong [where f = dict_get], THEN fun_cong]
  aliases_2_def [THEN arg_cong [where f = dict_get], THEN fun_cong]
  aliases_3_def [THEN arg_cong [where f = dict_get], THEN fun_cong]
  aliases_4_def [THEN arg_cong [where f = dict_get], THEN fun_cong]
  aliases_5_def [THEN arg_cong [where f = dict_get], THEN fun_cong]
  aliases_6_def [THEN arg_cong [where f = dict_get], THEN fun_cong]
  aliases_7_def [THEN arg_cong [where f = dict_get], THEN fun_cong]
  aliases_8_def [THEN arg_cong [where f = dict_get], THEN fun_cong]
  aliases_9_def [THEN arg_cong [where f = dict_get], THEN fun_cong]
  aliases_10_def [THEN arg_cong [where f = dict_get], THEN fun_cong]
  aliases_11_def [THEN arg_cong [where f = dict_get], THEN fun_cong]
  aliases_12_def [THEN arg_cong [where f = dict_get], THEN fun_cong]
  aliases_13_def [THEN arg_cong [where f = dict_get], THEN fun_cong]
  aliases_14_def [THEN arg_cong [where f = dict_get], THEN fun_cong]
  aliases_15_def [THEN arg_cong [where f = dict_get], THEN fun_cong]
  aliases_16_def [THEN arg_cong [where f = dict_get], THEN fun_cong]
  aliases_0_def [THEN arg_cong [where f = first_match], THEN fun_cong]
  aliases_1_def [THEN arg_cong [where f = first_match], THEN fun_cong]
  aliases_2_def [THEN arg_cong [where f = first_match], THEN fun_cong]
  aliases_3_def [THEN arg_cong [where f = first_match], THEN fun_cong]
  aliases_4_def [THEN arg_cong [where f = first_match], THEN fun_cong]
  aliases_5_def [THEN arg_cong [where f = first_match], THEN fun_cong]
  aliases_6_def [THEN arg_cong [where f = first_match], THEN fun_cong]
  aliases_7_def [THEN arg_cong [where f = first_match], THEN fun_cong]
  aliases_8_def [THEN arg_cong [where f = first_match], THEN fun_cong]
  aliases_9_def [THEN arg_cong [where f = first_match], THEN fun_cong]
  aliases_10_def [THEN arg_cong [where f = first_match], THEN fun_cong]
  aliases_11_def [THEN arg_cong [where f = first_match], THEN fun_cong]
  aliases_12_def [THEN arg_cong [where f = first_match], THEN fun_cong]
  aliases_13_def [THEN arg_cong [where f = first_match], THEN fun_cong]
  aliases_14_def [THEN arg_cong [where f = first_match], THEN fun_cong]
  aliases_15_def [THEN arg_cong [where f = first_match], THEN fun_cong]
  aliases_16_def [THEN arg_cong [where f = first_match], THEN fun_cong]
  preference_0_def [THEN arg_cong [where f = contains], THEN fun_cong]
  preference_1_def [THEN arg_cong [where f = contains], THEN fun_cong]
  preference_2_def [THEN arg_cong [where f = contains], THEN fun_cong]
  preference_3_def [THEN arg_cong [where f = contains], THEN fun_cong]
  preference_4_def [THEN arg_cong [where f = contains], THEN fun_cong]

lemmas normalize_eval =
  normalize_network_name_for_config_def table_unfold split_first_def strip_def upper_def
  upper_char_def is_lower_def is_space_def code_def replace_char_def remove_char_def
  re_sub_paren_def match_len_def aggressive_def alias_matches_def generic_name_def Let_def

section \<open>Network selector: results\<close>

lemma direct_from_entry_caps:
  assumes "w \<in> set (direct_from_entry allowed a e)"
  shows "direct_fee (snd e) \<noteq> Absent \<and> flag (can_withdraw (snd e))
         \<and> normalized_name w = fst e
         \<and> withdraw_network_code_on_from_ex w = get_or (fst e) (original_name_from_file (snd e))"
  using assms
  by (auto simp: direct_from_entry_def from_detail_def Let_def split: if_splits option.splits)

lemma ccxt_from_entry_caps:
  assumes "w \<in> set (ccxt_from_entry allowed a acc e)"
  shows "w \<in> set acc
         \<or> (ccxt_fee (snd e) \<noteq> Absent \<and> flag (active (snd e)) \<and> flag (withdraw (snd e))
            \<and> normalized_name w = normalize_network_name_for_config (Some (fst e))
            \<and> withdraw_network_code_on_from_ex w = fst e)"
  using assms
  by (auto simp: ccxt_from_entry_def from_detail_def Let_def split: if_splits option.splits)

lemma foldl_ccxt_from_entry_caps:
  assumes "w \<in> set (foldl (ccxt_from_entry allowed a) acc es)"
  shows "w \<in> set acc
         \<or> (\<exists>e \<in> set es. ccxt_fee (snd e) \<noteq> Absent \<and> flag (active (snd e)) \<and> flag (withdraw (snd e))
            \<and> normalized_name w = normalize_network_name_for_config (Some (fst e))
            \<and> withdraw_network_code_on_from_ex w = fst e)"
  using assms
proof (induction es arbitrary: acc)
  case Nil
  then show ?case by simp
next
  case (Cons e es)
  from Cons.prems have "w \<in> set (foldl (ccxt_from_entry allowed a) (ccxt_from_entry allowed a acc e) es)"
    by simp
  from Cons.IH [OF this] show ?case
    using ccxt_from_entry_caps [of w allowed a acc e] by auto
qed

lemma withdrawable_on_from_caps:
  assumes "w \<in> set (withdrawable_on_from tb allowed ex a)"
  shows "(normalized_name w, withdraw_network_code_on_from_ex w)
         \<in> set (withdrawal_capabilities tb ex a)"
proof -
  from foldl_ccxt_from_entry_caps [OF assms [unfolded withdrawable_on_from_def]]
  consider (d) e where "e \<in> set (direct_networks tb ex a)" "w \<in> set (direct_from_entry allowed a e)"
    | (c) e where "e \<in> set (ccxt_networks tb ex a)" "ccxt_fee (snd e) \<noteq> Absent"
        "flag (active (snd e))" "flag (withdraw (snd e))"
        "normalized_name w = normalize_network_name_for_config (Some (fst e))"
        "withdraw_network_code_on_from_ex w = fst e"
    by auto
  then show ?thesis
  proof cases
    case d
    from direct_from_entry_caps [OF d(2)] d(1) show ?thesis
      by (force simp: withdrawal_capabilities_def)
  next
    case c
    then show ?thesis by (force simp: withdrawal_capabilities_def)
  qed
qed

lemma dict_get_mem: "dict_get ps k = Some v \<Longrightarrow> (k, v) \<in> set ps"
  by (induction ps) (auto split: if_splits)

lemma add_deposit_mem:
  "p \<in> set (add_deposit nets nm c) \<Longrightarrow> p \<in> set nets \<or> p = (nm, c)"
  by (auto simp: add_deposit_def split: if_splits)

lemma foldl_direct_to_entry_caps:
  assumes "p \<in> set (foldl direct_to_entry acc es)"
  shows "p \<in> set acc
         \<or> (\<exists>e \<in> set es. flag (can_deposit (snd e))
               \<and> p = (fst e, get_or (fst e) (original_name_from_file (snd e))))"
  using assms
proof (induction es arbitrary: acc)
  case Nil
  then show ?case by simp
next
  case (Cons e es)
  from Cons.prems have "p \<in> set (foldl direct_to_entry (direct_to_entry acc e) es)" by simp
  from Cons.IH [OF this] show ?case
    using add_deposit_mem [of p acc "fst e" "get_or (fst e) (original_name_from_file (snd e))"]
    by (auto simp: direct_to_entry_def split: if_splits)
qed

lemma foldl_ccxt_to_entry_caps:
  assumes "p \<in> set (foldl ccxt_to_entry acc es)"
  shows "p \<in> set acc
         \<or> (\<exists>e \<in> set es. flag (active (snd e)) \<and> flag (deposit (snd e))
               \<and> p = (normalize_network_name_for_config (Some (fst e)), fst e))"
  using assms
proof (induction es arbitrary: acc)
  case Nil
  then show ?case by simp
next
  case (Cons e es)
  from Cons.prems have "p \<in> set (foldl ccxt_to_entry (ccxt_to_entry acc e) es)" by simp
  from Cons.IH [OF this] show ?case
    using add_deposit_mem [of p acc "normalize_network_name_for_config (Some (fst e))" "fst e"]
    by (auto simp: ccxt_to_entry_def split: if_splits)
qed

lemma depositable_on_to_caps:
  assumes "p \<in> set (depositable_on_to tb ex a)"
  shows "p \<in> set (deposit_capabilities tb ex a)"
proof -
  from foldl_ccxt_to_entry_caps [OF assms [unfolded depositable_on_to_def]]
  consider (d) "p \<in> set (foldl direct_to_entry [] (direct_networks tb ex a))"
    | (c) e where "e \<in> set (ccxt_networks tb ex a)" "flag (active (snd e))" "flag (deposit (snd e))"
        "p = (normalize_network_name_for_config (Some (fst e)), fst e)"
    by auto
  then show ?thesis
  proof cases
    case d
    from foldl_direct_to_entry_caps [OF d] show ?thesis
      by (force simp: deposit_capabilities_def)
  next
    case c
    then show ?thesis by (force simp: deposit_capabilities_def)
  qed
qed

lemma final_candidate_sound:
  assumes "c \<in> set (final_candidate tb a amt dep w)"
  shows "normalized_name c = normalized_name w
         \<and> withdraw_network_code_on_from_ex c = withdraw_network_code_on_from_ex w
         \<and> dict_get dep (normalized_name c) = Some (deposit_network_code_on_to_ex c)
         \<and> normalized_name c \<noteq> ''UNKNOWN_NETWORK''"
  using assms
  by (auto simp: final_candidate_def Let_def split: if_splits option.splits)

text \<open>
  C2, as stated, fails in its last part: the selector excludes only the name
  UNKNOWN_NETWORK. A network called DEFAULT on both venues is matched.
\<close>

theorem C2_counterexample:
  "map normalized_name
     (select_optimal_network_for_transfer Config
        \<lparr>TOKEN_NETWORK_RESTRICTIONS = Map.empty, ASSET_UNAVAILABLE_BLACKLIST = [],
         LOADED_EXCHANGE_FEES_DATA = Map.empty, TOKEN_PREFERRED_NETWORKS = Map.empty,
         ESTIMATED_ASSET_PRICES_USD = Map.empty,
         currencies_cache =
           [''binance'' \<mapsto> [''XYZ'' \<mapsto> [(''DEFAULT'',
               \<lparr>active = None, withdraw = None, deposit = None, ccxt_fee = Val True (Some 1),
                feeCurrency = None, limits_withdraw_min = Absent\<rparr>)]],
            ''kucoin'' \<mapsto> [''XYZ'' \<mapsto> [(''DEFAULT'',
               \<lparr>active = None, withdraw = None, deposit = None, ccxt_fee = Absent,
                feeCurrency = None, limits_withdraw_min = Absent\<rparr>)]]]\<rparr>
        (\<lambda>c. None) ''XYZ'' ''binance'' ''kucoin'' None)
   = [''DEFAULT'']"
proof -
  have n: "normalize_network_name_for_config (Some ''DEFAULT'') = ''DEFAULT''"
    by (simp add: normalize_eval cong: dict_get_cong contains_cong first_match_cong)
  have u: "upper ''XYZ'' = ''XYZ''" "lower ''binance'' = ''binance''" "lower ''kucoin'' = ''kucoin''"
    by (simp_all add: upper_def upper_char_def lower_def lower_char_def is_lower_def is_upper_def code_def)
  show ?thesis
    by (simp add: select_optimal_network_for_transfer_def withdrawable_on_from_def
        depositable_on_to_def direct_networks_def ccxt_networks_def ccxt_from_entry_def
        ccxt_to_entry_def add_deposit_def final_candidate_def from_detail_def restricted_out_def
        n u Let_def)
qed

text \<open>
  C2, amended: every candidate that the network selector returns pairs a withdrawal
  capability of the source venue with a deposit capability of the destination venue that
  have the same normalised network name, it carries the venue codes of the two, and that
  name is never UNKNOWN_NETWORK.
\<close>

theorem C2_selector_candidates_match:
  assumes "c \<in> set (select_optimal_network_for_transfer cfg tb price_of asset_code
                      from_exchange_id to_exchange_id amount)"
  shows "(normalized_name c, withdraw_network_code_on_from_ex c)
           \<in> set (withdrawal_capabilities tb from_exchange_id (upper asset_code))
         \<and> (normalized_name c, deposit_network_code_on_to_ex c)
           \<in> set (deposit_capabilities tb to_exchange_id (upper asset_code))
         \<and> normalized_name c \<noteq> ''UNKNOWN_NETWORK''"
proof -
  define a where "a = upper asset_code"
  define allowed where "allowed = TOKEN_NETWORK_RESTRICTIONS tb (lower from_exchange_id, a)"
  define dep where "dep = depositable_on_to tb to_exchange_id a"
  from assms obtain w where w: "w \<in> set (withdrawable_on_from tb allowed from_exchange_id a)"
    and c: "c \<in> set (final_candidate tb a amount dep w)"
    by (auto simp: select_optimal_network_for_transfer_def Let_def a_def allowed_def dep_def
        split: if_splits)
  from final_candidate_sound [OF c] have
    f: "normalized_name c = normalized_name w"
       "withdraw_network_code_on_from_ex c = withdraw_network_code_on_from_ex w"
       "dict_get dep (normalized_name c) = Some (deposit_network_code_on_to_ex c)"
       "normalized_name c \<noteq> ''UNKNOWN_NETWORK''"
    by blast+
  have "(normalized_name c, deposit_network_code_on_to_ex c) \<in> set dep"
    using dict_get_mem [OF f(3)] .
  then have "(normalized_name c, deposit_network_code_on_to_ex c)
               \<in> set (deposit_capabilities tb to_exchange_id a)"
    unfolding dep_def by (rule depositable_on_to_caps)
  moreover have "(normalized_name c, withdraw_network_code_on_from_ex c)
               \<in> set (withdrawal_capabilities tb from_exchange_id a)"
    using withdrawable_on_from_caps [OF w] f(1,2) by simp
  ultimately show ?thesis using f(4) by (simp add: a_def)
qed

theorem C2_selector_candidates_match_witness:
  "(let tb = \<lparr>TOKEN_NETWORK_RESTRICTIONS = Map.empty, ASSET_UNAVAILABLE_BLACKLIST = [],
               LOADED_EXCHANGE_FEES_DATA = Map.empty, TOKEN_PREFERRED_NETWORKS = Map.empty,
               ESTIMATED_ASSET_PRICES_USD = Map.empty,
               currencies_cache =
                 [''binance'' \<mapsto> [''XYZ'' \<mapsto> [(''BSC'',
                     \<lparr>active = None, withdraw = None, deposit = None, ccxt_fee = Val True (Some 1),
                      feeCurrency = None, limits_withdraw_min = Absent\<rparr>)]],
                  ''kucoin'' \<mapsto> [''XYZ'' \<mapsto> [(''BEP20(BSC)'',
                     \<lparr>active = None, withdraw = None, deposit = None, ccxt_fee = Absent,
                      feeCurrency = None, limits_withdraw_min = Absent\<rparr>)]]]\<rparr>;
        r = select_optimal_network_for_transfer Config tb (\<lambda>c. None) ''xyz'' ''binance'' ''kucoin'' None
    in hd r \<in> set r
       \<and> (normalized_name (hd r), withdraw_network_code_on_from_ex (hd r))
            \<in> set (withdrawal_capabilities tb ''binance'' (upper ''xyz''))
       \<and> (normalized_name (hd r), deposit_network_code_on_to_ex (hd r))
            \<in> set (deposit_capabilities tb ''kucoin'' (upper ''xyz''))
       \<and> normalized_name (hd r) = ''BEP20'')"
proof -
  define tb where "tb = \<lparr>TOKEN_NETWORK_RESTRICTIONS = Map.empty, ASSET_UNAVAILABLE_BLACKLIST = [],
               LOADED_EXCHANGE_FEES_DATA = Map.empty, TOKEN_PREFERRED_NETWORKS = Map.empty,
               ESTIMATED_ASSET_PRICES_USD = (Map.empty :: string \<rightharpoonup> decimal),
               currencies_cache =
                 [''binance'' \<mapsto> [''XYZ'' \<mapsto> [(''BSC'',
                     \<lparr>active = None, withdraw = None, deposit = None, ccxt_fee = Val True (Some 1),
                      feeCurrency = None, limits_withdraw_min = Absent\<rparr>)]],
                  ''kucoin'' \<mapsto> [''XYZ'' \<mapsto> [(''BEP20(BSC)'',
                     \<lparr>active = None, withdraw = None, deposit = None, ccxt_fee = Absent,
                      feeCurrency = None, limits_withdraw_min = Absent\<rparr>)]]]\<rparr>"
  define r where "r = select_optimal_network_for_transfer Config tb (\<lambda>c. None) ''xyz'' ''binance'' ''kucoin'' None"
  have n: "normalize_network_name_for_config (Some ''BSC'') = ''BEP20''"
    "normalize_network_name_for_config (Some ''BEP20(BSC)'') = ''BEP20''"
    by (simp_all add: normalize_eval cong: dict_get_cong contains_cong first_match_cong)
  have u: "upper ''xyz'' = ''XYZ''" "lower ''binance'' = ''binance''" "lower ''kucoin'' = ''kucoin''"
    by (simp_all add: upper_def upper_char_def lower_def lower_char_def is_lower_def is_upper_def code_def)
  have names: "map normalized_name r = [''BEP20'']"
    unfolding r_def tb_def
    by (simp add: select_optimal_network_for_transfer_def withdrawable_on_from_def
        depositable_on_to_def direct_networks_def ccxt_networks_def ccxt_from_entry_def
        ccxt_to_entry_def add_deposit_def final_candidate_def from_detail_def restricted_out_def
        n u Let_def)
  then have ne: "r \<noteq> []" by auto
  then have h: "hd r \<in> set r" by simp
  have nm: "normalized_name (hd r) = ''BEP20''"
    using names ne by (cases r) auto
  from C2_selector_candidates_match [OF h [unfolded r_def]] h nm
  show ?thesis
    unfolding Let_def tb_def [symmetric] r_def [symmetric] by simp
qed

section \<open>Executor: results\<close>




















section \<open>Rebalancer: results\<close>

text \<open>A request that is not negligible registers its operation and reaches the venues.\<close>

lemma transfer_proceeds:
  assumes "quantized_amount_of cfg self asset_code from_exchange_id amount = Some q"
    and "q > DECIMAL_COMPARISON_EPSILON"
    and "\<not> is_operation_active self (create_operation_key asset_code from_exchange_id to_exchange_id q)"
  shows "transfer_asset_between_exchanges cfg execute_asset_transfer self asset_code
           from_exchange_id to_exchange_id amount all_balances ov
         = (case execute_asset_transfer asset_code from_exchange_id to_exchange_id q all_balances ov
                  (snd (start_operation
                          (create_operation_key asset_code from_exchange_id to_exchange_id q)
                          from_exchange_id to_exchange_id q asset_code self)) of
              (Inr result, s2) \<Rightarrow>
                (result, end_operation
                           (create_operation_key asset_code from_exchange_id to_exchange_id q) s2)
            | (Inl e, s2) \<Rightarrow>
                (False, end_operation
                          (create_operation_key asset_code from_exchange_id to_exchange_id q) s2))"
proof -
  from assms(1) obtain inst where
    i: "rebalancer_exchanges self from_exchange_id = Some inst"
    and q: "quantize_down amount (get_asset_transfer_precision cfg (analyzer_currencies_cache self)
              from_exchange_id inst (upper asset_code)) = Inr q"
    by (auto simp: quantized_amount_of_def split: option.splits sum.splits)
  from assms(2) have n: "\<not> q \<le> DECIMAL_COMPARISON_EPSILON" by simp
  show ?thesis
    using assms(3)
    by (simp add: transfer_asset_between_exchanges_def i q n Let_def start_operation_def)
qed

text \<open>
  C10: for every call to transfer_asset_between_exchanges, if the requested amount cut
  down to the exponent of the asset's inferred step is at most 10^-8, the call returns
  failure and the rebalancer is as before: no operation is registered and the venues are
  not touched, whatever _execute_asset_transfer would do.
\<close>

theorem C10_negligible_transfer_aborts:
  assumes "quantized_amount_of cfg self asset_code from_exchange_id amount = Some q"
    and "q \<le> 1 / 10 ^ 8"
  shows "transfer_asset_between_exchanges cfg execute_asset_transfer self asset_code
           from_exchange_id to_exchange_id amount all_balances ov = (False, self)"
  using assms
  by (auto simp: transfer_asset_between_exchanges_def quantized_amount_of_def Let_def
      DECIMAL_COMPARISON_EPSILON_def split: option.splits sum.splits)

theorem C10_negligible_transfer_aborts_witness:
  "(let inst = \<lparr>precisionMode = Some TICK_SIZE,
                currencies = [''BTC'' \<mapsto> Some \<lparr>is_int_float_str = True,
                                                as_dec = Some \<lparr>dec_coeff = 1, dec_exp = - 3\<rparr>\<rparr>],
                markets = Map.empty\<rparr>;
        self = \<lparr>rebalancer_exchanges = [''kucoin'' \<mapsto> inst],
                analyzer_currencies_cache = Map.empty,
                active_operations = Map.empty, venues = False\<rparr>
    in quantized_amount_of Config self ''btc'' ''kucoin'' (9 / 10000) = Some 0
       \<and> transfer_asset_between_exchanges Config
            (\<lambda>asset from_ex to_ex amount b ov s. (Inr True, s\<lparr>venues := True\<rparr>))
            self ''btc'' ''kucoin'' ''binance'' (9 / 10000) () () = (False, self))"
proof -
  define inst where "inst = \<lparr>precisionMode = Some TICK_SIZE,
                currencies = [''BTC'' \<mapsto> Some \<lparr>is_int_float_str = True,
                                                as_dec = Some \<lparr>dec_coeff = 1, dec_exp = - 3\<rparr>\<rparr>],
                markets = Map.empty\<rparr>"
  define self where "self = \<lparr>rebalancer_exchanges = [''kucoin'' \<mapsto> inst],
                analyzer_currencies_cache = Map.empty,
                active_operations = Map.empty, venues = False\<rparr>"
  have u: "upper ''btc'' = ''BTC''" "upper ''USDT'' = ''USDT''"
    by (simp_all add: upper_def upper_char_def is_lower_def code_def)
  have s: "get_asset_transfer_precision Config Map.empty ''kucoin'' inst ''BTC''
           = \<lparr>dec_coeff = 1, dec_exp = - 3\<rparr>"
    by (simp add: get_asset_transfer_precision_def Config_def u inst_def currency_step_def Let_def)
  have q: "quantized_amount_of Config self ''btc'' ''kucoin'' (9 / 10000) = Some 0"
    by (simp add: quantized_amount_of_def self_def u s quantize_down_def pow10_def
        int_of_decimal_def Let_def floor_eq_iff)
  from C10_negligible_transfer_aborts [OF q, of
      "\<lambda>asset from_ex to_ex amount b ov s. (Inr True, s\<lparr>venues := True\<rparr>)" "''binance''" "()" "()"]
  have "transfer_asset_between_exchanges Config
            (\<lambda>asset from_ex to_ex amount b ov s. (Inr True, s\<lparr>venues := True\<rparr>))
            self ''btc'' ''kucoin'' ''binance'' (9 / 10000) () () = (False, self)"
    by simp
  with q show ?thesis
    unfolding Let_def inst_def [symmetric] self_def [symmetric] by simp
qed

end
